theory Spec2Isabelle
  imports Main "HOL-Library.Sublist"
begin

section \<open>JavaScript values and strings\<close>

text \<open>
  The repository holds two implementations of one OAuth relay: a long-running Express
  server (class \<open>UserTokenGenerator\<close>, the file that runs) and a serverless handler
  (\<open>api/index.js\<close>), whose module does not parse as it stands (see the section on
  it). A JavaScript string is a list of code units; the model covers the code units below
  256, so a \<open>char\<close> is one code unit. Static text of log messages and pages is
  transcribed in ASCII (pictographs are left out). The pages are abridged: white space
  between tags, the style sheets, the client-side scripts and some paragraphs of fixed
  text are left out; they hold no interpolation, and every interpolation of a page is
  kept, in its place.

  A value read from the provider's JSON answer or from the query of a request is a
  \<open>jsval\<close>: any JSON value, and \<open>undefined\<close> for a property that is not there. A
  number is given by what the code can observe of it: whether it is zero, and its text as
  the engine prints it. The keys of an object are distinct (a parser keeps one value for
  a key).
\<close>

datatype jsval =
    JUndefined
  | JNull
  | JBool bool
  | JNum (num_nonzero: bool) (num_text: string)
  | JStr string
  | JArr "jsval list"
  | JObj "(string \<times> jsval) list"

fun truthy :: "jsval \<Rightarrow> bool" where
  "truthy JUndefined = False"
| "truthy JNull = False"
| "truthy (JBool b) = b"
| "truthy (JNum nz t) = nz"
| "truthy (JStr s) = (s \<noteq> [])"
| "truthy (JArr xs) = True"
| "truthy (JObj kvs) = True"

text \<open>\<open>a || b\<close>.\<close>

definition js_or :: "jsval \<Rightarrow> jsval \<Rightarrow> jsval" where
  "js_or a b = (if truthy a then a else b)"

text \<open>
  \<open>v?.k\<close>, and \<open>v.k\<close> where \<open>v\<close> is neither \<open>null\<close> nor \<open>undefined\<close>, for the
  property names that the code reads (\<open>ok\<close>, \<open>error\<close>, \<open>authed_user\<close>, \<open>team\<close>,
  \<open>access_token\<close>, \<open>id\<close>, \<open>name\<close>, \<open>scope\<close>): an object gives its own property
  of that name; a primitive value, an array and the prototype of an object have none.
\<close>

definition prop_of :: "jsval \<Rightarrow> string \<Rightarrow> jsval" where
  "prop_of v k =
     (case v of
        JObj kvs \<Rightarrow> (case map_of kvs k of None \<Rightarrow> JUndefined | Some x \<Rightarrow> x)
      | _ \<Rightarrow> JUndefined)"

definition nullish :: "jsval \<Rightarrow> bool" where
  "nullish v = (v = JUndefined \<or> v = JNull)"

text \<open>\<open>tokenData.authed_user.access_token\<close>, read as above.\<close>

definition token_of :: "jsval \<Rightarrow> jsval" where
  "token_of d = prop_of (prop_of d ''authed_user'') ''access_token''"

text \<open>
  A value with one property given another value: \<open>with_token d t\<close> is the answer
  \<open>d\<close> with \<open>t\<close> as its \<open>authed_user.access_token\<close>.
\<close>

definition with_prop :: "jsval \<Rightarrow> string \<Rightarrow> jsval \<Rightarrow> jsval" where
  "with_prop v k x =
     (case v of
        JObj kvs \<Rightarrow> JObj (map (\<lambda>(k', y). if k' = k then (k', x) else (k', y)) kvs)
      | _ \<Rightarrow> v)"

definition with_token :: "jsval \<Rightarrow> jsval \<Rightarrow> jsval" where
  "with_token d t =
     with_prop d ''authed_user'' (with_prop (prop_of d ''authed_user'') ''access_token'' t)"

text \<open>An environment variable: a string or \<open>undefined\<close>.\<close>

definition opt_val :: "string option \<Rightarrow> jsval" where
  "opt_val x = (case x of None \<Rightarrow> JUndefined | Some s \<Rightarrow> JStr s)"

definition present :: "string option \<Rightarrow> bool" where
  "present x = truthy (opt_val x)"

definition or_else :: "string option \<Rightarrow> string \<Rightarrow> string" where
  "or_else x d = (case x of None \<Rightarrow> d | Some s \<Rightarrow> if s = [] then d else s)"

text \<open>A string or \<open>undefined\<close> inside a template literal.\<close>

definition str_of :: "string option \<Rightarrow> string" where
  "str_of x = (case x of None \<Rightarrow> ''undefined'' | Some s \<Rightarrow> s)"

function string_of_nat :: "nat \<Rightarrow> string" where
  "string_of_nat n =
     (if n < 10 then [char_of (48 + n)]
      else string_of_nat (n div 10) @ [char_of (48 + n mod 10)])"
  by pat_completeness auto
termination
  by (relation "measure (\<lambda>n. n)") auto

declare string_of_nat.simps [simp del]

definition string_of_int :: "int \<Rightarrow> string" where
  "string_of_int i = (if i < 0 then CHR ''-'' # string_of_nat (nat (- i)) else string_of_nat (nat i))"

text \<open>
  An error object: its constructor's name and its message. The errors that the engine
  and the framework raise are not in the source; the model takes them as given by the
  \<open>runtime\<close>: the \<open>TypeError\<close> of a conversion to a string of an object that has no
  primitive form, the \<open>TypeError\<close> of a call of a method that is not there, the
  \<open>TypeError\<close> of a property read on \<open>null\<close>, and the error with which the framework
  refuses a reply on a response that has been sent.
\<close>

datatype js_error = JsError (err_name: string) (message: string)

record runtime =
  not_primitive :: js_error
  not_a_function :: js_error
  null_read :: js_error
  headers_sent :: js_error

text \<open>
  Conversion to a string, as a template literal and \<open>new Error(v)\<close> do it. An array is
  the texts of its elements with commas between them (nothing for \<open>null\<close> and
  \<open>undefined\<close>). An object of a JSON answer or of a parsed query is
  \<open>[object Object]\<close>, unless it has a property \<open>toString\<close> of its own: that value is
  no function, \<open>valueOf\<close> gives no primitive value either, and the conversion throws.
\<close>

fun toString :: "runtime \<Rightarrow> jsval \<Rightarrow> js_error + string"
  and join_elements :: "runtime \<Rightarrow> jsval list \<Rightarrow> js_error + string" where
  "toString rt JUndefined = Inr ''undefined''"
| "toString rt JNull = Inr ''null''"
| "toString rt (JBool b) = Inr (if b then ''true'' else ''false'')"
| "toString rt (JNum nz t) = Inr t"
| "toString rt (JStr s) = Inr s"
| "toString rt (JArr xs) = join_elements rt xs"
| "toString rt (JObj kvs) =
     (if map_of kvs ''toString'' = None then Inr ''[object Object]'' else Inl (not_primitive rt))"
| "join_elements rt [] = Inr []"
| "join_elements rt (x # xs) =
     (case (if x = JUndefined \<or> x = JNull then Inr [] else toString rt x) of
        Inl e \<Rightarrow> Inl e
      | Inr s \<Rightarrow>
          (if xs = [] then Inr s
           else (case join_elements rt xs of
                   Inl e \<Rightarrow> Inl e
                 | Inr t \<Rightarrow> Inr (s @ '','' @ t))))"

text \<open>\<open>String.prototype.trim\<close> on code units below 256.\<close>

definition is_space :: "char \<Rightarrow> bool" where
  "is_space c = (of_char c \<in> {9, 10, 11, 12, 13, 32, 160 :: nat})"

definition trim :: "string \<Rightarrow> string" where
  "trim s = rev (dropWhile is_space (rev (dropWhile is_space s)))"

text \<open>\<open>encodeURIComponent\<close>: a code unit from 128 to 255 is two bytes in UTF-8.\<close>

definition uri_unreserved :: "char \<Rightarrow> bool" where
  "uri_unreserved c =
     (c \<in> set ''ABCDEFGHIJKLMNOPQRSTUVWXYZabcdefghijklmnopqrstuvwxyz0123456789-_.!~*()''
      \<or> c = CHR 0x27)"

definition pct :: "nat \<Rightarrow> string" where
  "pct b = [CHR ''%'', ''0123456789ABCDEF'' ! (b div 16 mod 16), ''0123456789ABCDEF'' ! (b mod 16)]"

definition encode_unit :: "char \<Rightarrow> string" where
  "encode_unit c =
     (let n = (of_char c :: nat) in
      if uri_unreserved c then [c]
      else if n < 128 then pct n
      else pct (192 + n div 64) @ pct (128 + n mod 64))"

definition encodeURIComponent :: "string \<Rightarrow> string" where
  "encodeURIComponent s = concat (map encode_unit s)"

text \<open>\<open>Array.prototype.join\<close> on strings.\<close>

fun join :: "string \<Rightarrow> string list \<Rightarrow> string" where
  "join sep [] = []"
| "join sep [x] = x"
| "join sep (x # y # ys) = x @ sep @ join sep (y # ys)"

text \<open>\<open>s.replace(/,/g, ', ')\<close> on a string.\<close>

definition replace_commas :: "string \<Rightarrow> string" where
  "replace_commas s = concat (map (\<lambda>c. if c = CHR '','' then '', '' else [c]) s)"

text \<open>
  \<open>req.query\<close>, as the framework's query parser hands it to a route of the server: an
  object whose values are strings, arrays (a key that occurs more than once, or is written
  with brackets) or, with the parser of some versions of the framework, objects (a key
  written with a name in brackets, \<open>toString\<close> among the names). The routes are
  modelled for any value. \<open>req.query.k\<close> is the value, or \<open>undefined\<close>.
\<close>

type_synonym query_object = "(string \<times> jsval) list"

definition query_value :: "query_object \<Rightarrow> string \<Rightarrow> jsval" where
  "query_value q k = (case map_of q k of None \<Rightarrow> JUndefined | Some v \<Rightarrow> v)"

text \<open>
  \<open>url.searchParams.get(k)\<close> of the serverless handler: the first value of the key in
  the query string, or \<open>null\<close> (\<open>None\<close>).
\<close>

definition qparam :: "(string \<times> string) list \<Rightarrow> string \<Rightarrow> string option" where
  "qparam q k = map_of q k"

section \<open>The state store\<close>

text \<open>
  \<open>pendingStates\<close> is a JavaScript \<open>Map\<close>: keys are unique and keep their insertion
  order. \<open>Map_set\<close> overwrites in place or appends, \<open>Map_delete\<close> removes the key.
\<close>

record state_data =
  user_id :: string
  user_name :: string
  timestamp :: int

type_synonym pending = "(string \<times> state_data) list"

definition Map_get :: "pending \<Rightarrow> string \<Rightarrow> state_data option" where
  "Map_get m k = map_of m k"

fun Map_set :: "pending \<Rightarrow> string \<Rightarrow> state_data \<Rightarrow> pending" where
  "Map_set [] k v = [(k, v)]"
| "Map_set ((k', v') # m) k v = (if k' = k then (k, v) # m else (k', v') # Map_set m k v)"

definition Map_delete :: "pending \<Rightarrow> string \<Rightarrow> pending" where
  "Map_delete m k = filter (\<lambda>(k', v). k' \<noteq> k) m"

definition Map_keys :: "pending \<Rightarrow> string list" where
  "Map_keys m = map fst m"

text \<open>The invariant of a \<open>Map\<close>: no key twice.\<close>

definition wf_store :: "pending \<Rightarrow> bool" where
  "wf_store m = distinct (Map_keys m)"

text \<open>
  \<open>pendingStates.get(state)\<close> and \<open>pendingStates.delete(state)\<close> with a value of
  \<open>req.query\<close>: only a string is equal to a key of the store.
\<close>

definition Map_get_v :: "pending \<Rightarrow> jsval \<Rightarrow> state_data option" where
  "Map_get_v m x = (case x of JStr s \<Rightarrow> Map_get m s | _ \<Rightarrow> None)"

definition Map_delete_v :: "pending \<Rightarrow> jsval \<Rightarrow> pending" where
  "Map_delete_v m x = (case x of JStr s \<Rightarrow> Map_delete m s | _ \<Rightarrow> m)"

section \<open>Effects: console output, the outbound call and the reply\<close>

text \<open>
  One argument of a \<open>console\<close> call, kept as the value that is passed (the runtime
  prints it). \<open>LStack e\<close> is \<open>e.stack\<close>.
\<close>

datatype logarg =
    LStr string
  | LBool bool
  | LNum int
  | LVal jsval
  | LObj "(string \<times> logarg) list"
  | LArr "string list"
  | LErr js_error
  | LStack js_error
  | LState state_data

datatype level = LOG | ERROR

record fetch_request =
  url :: string
  http_method :: string
  content_type :: string
  body :: "(string \<times> string) list"

text \<open>
  What \<open>fetch\<close> gives back: a rejection (network fault) or a response with its status
  line, its body as text and the result of \<open>response.json()\<close> (\<open>Inl\<close> when the body
  does not parse).
\<close>

record http_response =
  status :: nat
  statusText :: string
  body_text :: string
  body_json :: "js_error + jsval"

datatype fetch_result = Rejected js_error | Resolved http_response

definition response_ok :: "http_response \<Rightarrow> bool" where
  "response_ok r = (200 \<le> status r \<and> status r \<le> 299)"

text \<open>
  What a run does besides replying: a console line, the outbound call, and
  \<open>Uncaught e\<close>: the route ends with the error \<open>e\<close> thrown out of it (its promise is
  rejected), which is left to the framework and to the handlers of the process.
\<close>

datatype event = Console level "logarg list" | Fetch fetch_request | Uncaught js_error

text \<open>
  The reply to the browser: the first reply sent on the response (a later one is refused
  by the framework, which throws \<open>headers_sent\<close>). \<open>res.send(b)\<close> is \<open>Send 200 b\<close>
  (200 is the status of a response whose status was not set), \<open>res.status(n).send(b)\<close>
  is \<open>Send n b\<close>, and \<open>res.redirect(u)\<close>, called with no status, is \<open>Redirect n u\<close>
  with the default status \<open>n\<close> of the platform.
\<close>

datatype response =
    Send (res_status: nat) (res_body: string)
  | Redirect (res_status: nat) (res_location: string)

text \<open>
  Modelled from the spec: the status of \<open>res.redirect(url)\<close> in the server. The framework
  (Express) is not part of the source; the specification's interface table gives
  \<open>302 redirect to provider\<close> for the start of the flow.
\<close>

definition redirect_default :: nat where
  "redirect_default = 302"

text \<open>A request to the server: its parsed query, its URL and its headers.\<close>

record request =
  query :: query_object
  req_url :: string
  req_headers :: query_object

section \<open>The server (class UserTokenGenerator)\<close>

record env =
  SLACK_CLIENT_ID :: "string option"
  SLACK_CLIENT_SECRET :: "string option"
  SLACK_REDIRECT_URI :: "string option"
  PORT :: "string option"

record server =
  port :: string
  clientId :: "string option"
  clientSecret :: "string option"
  redirectUri :: string
  pendingStates :: pending

definition UserTokenGenerator :: "env \<Rightarrow> server" where
  "UserTokenGenerator e =
     (let p = or_else (PORT e) ''3000'' in
      \<lparr> port = p,
        clientId = SLACK_CLIENT_ID e,
        clientSecret = SLACK_CLIENT_SECRET e,
        redirectUri = or_else (SLACK_REDIRECT_URI e) (''http://localhost:'' @ p @ ''/auth/callback''),
        pendingStates = [] \<rparr>)"

text \<open>
  \<open>start()\<close>: the process exits with code 1 before it listens when a credential is
  missing; otherwise the server listens. (The messages it prints are left out.)
\<close>

datatype start_result = Exit nat | Listening

definition start :: "server \<Rightarrow> start_result" where
  "start srv =
     (if \<not> present (clientId srv) \<or> \<not> present (clientSecret srv) then Exit 1 else Listening)"

text \<open>
  \<open>validateInput(input, maxLength = 100)\<close>: the empty string for a value that is falsy
  or is no string.
\<close>

definition validateInput :: "jsval \<Rightarrow> string" where
  "validateInput input =
     (case input of
        JStr s \<Rightarrow>
          if s = [] then []
          else filter (\<lambda>c. c \<notin> {CHR ''<'', CHR ''>'', CHR 0x22, CHR 0x27, CHR ''&''})
                 (take 100 (trim s))
      | _ \<Rightarrow> [])"

text \<open>\<open>cleanupStates()\<close>; \<open>now\<close> is the value of \<open>Date.now()\<close>.\<close>

definition tenMinutes :: int where
  "tenMinutes = 10 * 60 * 1000"

fun cleanup_loop :: "int \<Rightarrow> (string \<times> state_data) list \<Rightarrow> pending \<times> nat \<Rightarrow> pending \<times> nat" where
  "cleanup_loop now [] (m, cleaned) = (m, cleaned)"
| "cleanup_loop now ((state, data) # rest) (m, cleaned) =
     (if now - timestamp data > tenMinutes
      then cleanup_loop now rest (Map_delete m state, cleaned + 1)
      else cleanup_loop now rest (m, cleaned))"

definition cleanupStates :: "int \<Rightarrow> server \<Rightarrow> server \<times> event list" where
  "cleanupStates now srv =
     (let (m, cleaned) = cleanup_loop now (pendingStates srv) (pendingStates srv, 0) in
      (srv\<lparr>pendingStates := m\<rparr>,
       if cleaned > 0
       then [Console LOG [LStr (''Cleaned up '' @ string_of_nat cleaned @ '' expired OAuth states'')]]
       else []))"

subsection \<open>Pages\<close>

definition getErrorPage :: "string \<Rightarrow> string" where
  \<open>getErrorPage errorMessage =
     ''<!DOCTYPE html><html><head><title>Authorization Error</title></head><body>'' @
     ''<div class="container"><div class="error-header"><h1>Authorization Failed</h1>'' @
     ''<p>Something went wrong during token generation</p></div>'' @
     ''<div class="error-details"><strong>Error Details:</strong><br>'' @
     errorMessage @
     ''</div><p>Please try again or contact your administrator if the problem persists.</p>'' @
     ''<a href="/" class="button">Try Again</a></div></body></html>''\<close>

text \<open>
  The template of \<open>getSuccessPageWithToken\<close>: its text for the strings of its
  interpolations (\<open>success_template\<close>), and its evaluation (\<open>styled_page\<close>). The
  interpolations are evaluated and converted to strings one after the other, in the order
  of the text: the first one that throws ends the evaluation. \<open>scopes.replace\<close> throws
  when \<open>scopes\<close> is not a string (no other JSON value has that method). \<open>generated\<close>
  is the value of \<open>new Date().toLocaleString()\<close>.
\<close>

definition success_template :: "string \<Rightarrow> string \<Rightarrow> string \<Rightarrow> string \<Rightarrow> string \<Rightarrow> string \<Rightarrow> string" where
  \<open>success_template tok name uid team permissions generated =
     ''<!DOCTYPE html><html><head><title>Token Generated Successfully</title></head><body>'' @
     ''<div class="container"><div class="success-header"><h1>Your Slack Token is Ready!</h1>'' @
     ''<p>Copy your personal access token below</p></div>'' @
     ''<div class="token-section"><h3>Your Personal Access Token</h3>'' @
     ''<div class="token-display" id="tokenDisplay">'' @ tok @ ''</div>'' @
     ''<button class="copy-button" onclick="copyToken()">Copy Token to Clipboard</button></div>'' @
     ''<div class="info-grid">'' @
     ''<div class="info-item"><strong>User:</strong>'' @ name @ ''</div>'' @
     ''<div class="info-item"><strong>User ID:</strong>'' @ uid @ ''</div>'' @
     ''<div class="info-item"><strong>Team:</strong>'' @ team @ ''</div>'' @
     ''<div class="info-item"><strong>Permissions:</strong>'' @ permissions @ ''</div></div>'' @
     ''<p style="color: #6c757d;">Generated: '' @ generated @ ''<br></p>'' @
     ''</div></body></html>''\<close>

definition styled_page ::
  "runtime \<Rightarrow> jsval \<Rightarrow> jsval \<Rightarrow> jsval \<Rightarrow> jsval \<Rightarrow> jsval \<Rightarrow> string \<Rightarrow> js_error + string" where
  "styled_page rt userToken userName userId teamName scopes generated =
     (case toString rt userToken of Inl e \<Rightarrow> Inl e | Inr tok \<Rightarrow>
      case toString rt userName of Inl e \<Rightarrow> Inl e | Inr name \<Rightarrow>
      case toString rt userId of Inl e \<Rightarrow> Inl e | Inr uid \<Rightarrow>
      case toString rt teamName of Inl e \<Rightarrow> Inl e | Inr team \<Rightarrow>
      case scopes of
        JStr s \<Rightarrow> Inr (success_template tok name uid team (replace_commas s) generated)
      | _ \<Rightarrow> Inl (not_a_function rt))"

text \<open>The template of the \<open>catch\<close> of \<open>getSuccessPageWithToken\<close>.\<close>

definition fallback_template :: "string \<Rightarrow> string" where
  \<open>fallback_template tok =
     ''<!DOCTYPE html><html><head><title>Success</title></head><body>'' @
     ''<h1>Token Generated Successfully!</h1>'' @
     ''<p>Your token: <code>'' @ tok @ ''</code></p>'' @
     ''<p>Please copy this token immediately and store it securely.</p></body></html>''\<close>

definition fallback_page :: "runtime \<Rightarrow> jsval \<Rightarrow> js_error + string" where
  "fallback_page rt tokenData =
     (case toString rt (js_or (prop_of (prop_of tokenData ''authed_user'') ''access_token'')
                          (JStr ''Error displaying token'')) of
        Inl e \<Rightarrow> Inl e
      | Inr tok \<Rightarrow> Inr (fallback_template tok))"

text \<open>
  \<open>getSuccessPageWithToken\<close>: the whole body stands in a \<open>try\<close>
  (\<open>success_page_try\<close>, the values it prepares and the template) whose \<open>catch\<close>
  logs the error and returns the short page. The template of the short page stands in the
  \<open>catch\<close>: when it throws, the function throws (\<open>Inl\<close>).
\<close>

definition success_page_try :: "runtime \<Rightarrow> jsval \<Rightarrow> state_data \<Rightarrow> string \<Rightarrow> js_error + string" where
  "success_page_try rt tokenData stateData generated =
     (let userName = js_or (prop_of (prop_of tokenData ''authed_user'') ''name'')
                       (js_or (JStr (user_name stateData)) (JStr ''Unknown User''));
          userId = js_or (prop_of (prop_of tokenData ''authed_user'') ''id'') (JStr ''Unknown ID'');
          teamName = js_or (prop_of (prop_of tokenData ''team'') ''name'') (JStr ''Unknown Team'');
          scopes = js_or (prop_of (prop_of tokenData ''authed_user'') ''scope'') (JStr ''No scopes'');
          userToken = js_or (prop_of (prop_of tokenData ''authed_user'') ''access_token'')
                        (JStr ''No token generated'')
      in styled_page rt userToken userName userId teamName scopes generated)"

definition getSuccessPageWithToken ::
  "runtime \<Rightarrow> jsval \<Rightarrow> state_data \<Rightarrow> string \<Rightarrow> (js_error + string) \<times> event list" where
  "getSuccessPageWithToken rt tokenData stateData generated =
     (let ev = [Console LOG [LStr ''Generating success page with token...''],
                Console LOG [LStr ''Success page data prepared (token hidden in logs)'']]
      in case success_page_try rt tokenData stateData generated of
           Inr page \<Rightarrow> (Inr page, ev)
         | Inl e \<Rightarrow>
             (fallback_page rt tokenData,
              ev @ [Console ERROR [LStr ''Error generating success page:'', LErr e]]))"

subsection \<open>Start of the flow: GET /auth/start\<close>

text \<open>
  \<open>state\<close> is the value of \<open>crypto.randomBytes(16).toString('hex')\<close> and \<open>now\<close> that
  of \<open>Date.now()\<close>. The route has no test of the configuration.
\<close>

definition auth_start :: "server \<Rightarrow> string \<Rightarrow> int \<Rightarrow> request \<Rightarrow> response \<times> server \<times> event list" where
  "auth_start srv state now req =
     (let userId = validateInput (query_value (query req) ''user_id'');
          userName = validateInput (query_value (query req) ''user_name'');
          srv' = srv\<lparr>pendingStates :=
                   Map_set (pendingStates srv) state
                     \<lparr>user_id = userId, user_name = userName, timestamp = now\<rparr>\<rparr>;
          userScopes = join '','' [''channels:read'', ''groups:read'', ''users:read''];
          authUrl = ''https://slack.com/oauth/v2/authorize?'' @
                    ''client_id='' @ str_of (clientId srv) @ ''&'' @
                    ''user_scope='' @ encodeURIComponent userScopes @ ''&'' @
                    ''redirect_uri='' @ encodeURIComponent (redirectUri srv) @ ''&'' @
                    ''state='' @ state
      in (Redirect redirect_default authUrl, srv',
          [Console LOG [LStr ''OAuth start requested''],
           Console LOG [LStr ''Client ID:'', LVal (opt_val (clientId srv))],
           Console LOG [LStr ''Redirect URI:'', LStr (redirectUri srv)],
           Console LOG [LStr ''Auth URL:'', LStr authUrl]]))"

subsection \<open>Token exchange\<close>

definition exchange_request :: "string option \<Rightarrow> string option \<Rightarrow> string \<Rightarrow> string \<Rightarrow> fetch_request" where
  "exchange_request cid secret code redirect =
     \<lparr> url = ''https://slack.com/api/oauth.v2.access'',
       http_method = ''POST'',
       content_type = ''application/x-www-form-urlencoded'',
       body = [(''client_id'', str_of cid), (''client_secret'', str_of secret),
               (''code'', code), (''redirect_uri'', redirect)] \<rparr>"

text \<open>The \<open>catch\<close> of \<open>exchangeCodeForToken\<close>: it logs and throws the error again.\<close>

definition exchange_catch :: "js_error \<Rightarrow> event list" where
  "exchange_catch e =
     [Console ERROR [LStr ''Exchange code error:'', LErr e],
      Console ERROR [LStr ''Error type:'', LStr ''object''],
      Console ERROR [LStr ''Error constructor:'', LStr (err_name e)]]"

text \<open>
  \<open>exchangeCodeForToken(code)\<close>, with \<open>fetch\<close> as the network. The body of the request
  takes each value as a string: the conversion of \<open>code\<close> can throw, and then no call is
  made. \<open>data.ok\<close> is the first read of the answer: it throws when the answer is
  \<open>null\<close>. The message of the error for an answer that is not \<open>ok\<close> is a template
  literal over \<open>data.error\<close>, whose conversion can throw in its place.
\<close>

definition exchangeCodeForToken ::
  "runtime \<Rightarrow> server \<Rightarrow> (fetch_request \<Rightarrow> fetch_result) \<Rightarrow> jsval
     \<Rightarrow> (js_error + jsval) \<times> event list" where
  "exchangeCodeForToken rt srv fetch code =
     (let ev0 = [Console LOG [LStr ''Making token exchange request to Slack...''],
                 Console LOG [LStr ''Request details:'',
                   LObj [(''clientId'', LStr (if present (clientId srv) then ''Present'' else ''Missing'')),
                         (''clientSecret'', LStr (if present (clientSecret srv) then ''Present'' else ''Missing'')),
                         (''code'', LStr (if truthy code then ''Present'' else ''Missing'')),
                         (''redirectUri'', LStr (redirectUri srv))]]]
      in case toString rt code of
           Inl e \<Rightarrow> (Inl e, ev0 @ exchange_catch e)
         | Inr cd \<Rightarrow>
      (let rq = exchange_request (clientId srv) (clientSecret srv) cd (redirectUri srv);
           ev1 = ev0 @ [Fetch rq]
      in case fetch rq of
           Rejected e \<Rightarrow> (Inl e, ev1 @ exchange_catch e)
         | Resolved r \<Rightarrow>
             (let ev2 = ev1 @ [Console LOG [LStr ''Slack API response status:'',
                                            LNum (int (status r)), LStr (statusText r)]]
              in if \<not> response_ok r then
                   (let e = JsError ''Error''
                              (''HTTP error! status: '' @ string_of_nat (status r) @ '' - '' @ body_text r)
                    in (Inl e,
                        ev2 @ [Console ERROR [LStr ''HTTP error from Slack:'',
                                              LNum (int (status r)), LStr (statusText r)],
                               Console ERROR [LStr ''Response body:'', LStr (body_text r)]]
                            @ exchange_catch e))
                 else
                   (case body_json r of
                      Inl e \<Rightarrow> (Inl e, ev2 @ exchange_catch e)
                    | Inr data \<Rightarrow>
                        if nullish data then (Inl (null_read rt), ev2 @ exchange_catch (null_read rt))
                        else
                        (let ev3 = ev2 @ [Console LOG [LStr ''Slack response structure:'',
                                   LObj [(''ok'', LVal (prop_of data ''ok'')),
                                         (''hasAuthedUser'', LBool (truthy (prop_of data ''authed_user''))),
                                         (''hasAccessToken'',
                                            LBool (truthy (prop_of data ''authed_user'')
                                                   \<and> truthy (prop_of (prop_of data ''authed_user'') ''access_token''))),
                                         (''hasTeam'', LBool (truthy (prop_of data ''team''))),
                                         (''error'', LVal (prop_of data ''error''))]]]
                         in if \<not> truthy (prop_of data ''ok'') then
                              (let e = (case toString rt (prop_of data ''error'') of
                                          Inl t \<Rightarrow> t
                                        | Inr s \<Rightarrow> JsError ''Error'' (''OAuth exchange failed: '' @ s))
                               in (Inl e,
                                   ev3 @ [Console ERROR [LStr ''Slack API error:'', LVal (prop_of data ''error'')],
                                          Console ERROR [LStr ''Full error response:'', LVal data]]
                                       @ exchange_catch e))
                            else (Inr data, ev3 @ [Console LOG [LStr ''Token exchange successful'']]))))))"

subsection \<open>The callback: GET /auth/callback\<close>

text \<open>The outer \<open>catch\<close> of the callback route, reached before any reply was sent: it logs
  the error and sends the error page of a failed exchange, whatever threw.\<close>

definition callback_catch :: "js_error \<Rightarrow> response \<times> event list" where
  "callback_catch e =
     (Send 200 (getErrorPage (''Token exchange failed: '' @ message e)),
      [Console ERROR [LStr ''OAuth callback error:'', LErr e],
       Console ERROR [LStr ''Error name:'', LStr (err_name e)],
       Console ERROR [LStr ''Error message:'', LStr (message e)],
       Console ERROR [LStr ''Error stack:'', LStack e]])"

text \<open>The text of the last console line of a successful callback (line 182).\<close>

definition generated_line :: "runtime \<Rightarrow> jsval \<Rightarrow> state_data \<Rightarrow> js_error + string" where
  "generated_line rt tokenData stateData =
     (case toString rt (js_or (prop_of (prop_of tokenData ''authed_user'') ''id'') (JStr ''Unknown'')) of
        Inl e \<Rightarrow> Inl e
      | Inr uid \<Rightarrow>
          (case toString rt (js_or (JStr (user_name stateData))
                               (js_or (prop_of (prop_of tokenData ''authed_user'') ''name'') (JStr ''Unknown''))) of
             Inl e \<Rightarrow> Inl e
           | Inr name \<Rightarrow>
               Inr (''Token generated for user: '' @ uid @ '' ('' @ name @ '')'')))"

text \<open>
  What follows a throw of line 182, after the page has been sent: the inner \<open>catch\<close>
  logs the error and its reply is refused; the refusal is caught by the outer \<open>catch\<close>,
  which logs it; the error page is refused too, which the \<open>catch\<close> around it logs; its
  own reply is refused, and that error leaves the route.
\<close>

definition after_send :: "runtime \<Rightarrow> js_error \<Rightarrow> event list" where
  "after_send rt e =
     [Console ERROR [LStr ''Error generating success page:'', LErr e],
      Console ERROR [LStr ''Page error stack:'', LStack e],
      Console ERROR [LStr ''OAuth callback error:'', LErr (headers_sent rt)],
      Console ERROR [LStr ''Error name:'', LStr (err_name (headers_sent rt))],
      Console ERROR [LStr ''Error message:'', LStr (message (headers_sent rt))],
      Console ERROR [LStr ''Error stack:'', LStack (headers_sent rt)],
      Console ERROR [LStr ''Failed to send error page:'', LErr (headers_sent rt)],
      Uncaught (headers_sent rt)]"

definition auth_callback ::
  "runtime \<Rightarrow> server \<Rightarrow> (fetch_request \<Rightarrow> fetch_result) \<Rightarrow> string \<Rightarrow> request
     \<Rightarrow> response \<times> server \<times> event list" where
  "auth_callback rt srv fetch generated req =
     (let code = query_value (query req) ''code'';
          state = query_value (query req) ''state'';
          err = query_value (query req) ''error'';
          ev0 = [Console LOG [LStr ''OAuth callback received''],
                 Console LOG [LStr ''Query params:'', LVal (JObj (query req))],
                 Console LOG [LStr ''Request URL:'', LStr (req_url req)],
                 Console LOG [LStr ''Request headers:'', LVal (JObj (req_headers req))],
                 Console LOG [LStr ''Checking for OAuth errors...'']]
      in if truthy err then
           (case toString rt err of
              Inr text \<Rightarrow>
                (Send 200 (getErrorPage (''OAuth Error: '' @ text)), srv,
                 ev0 @ [Console ERROR [LStr ''OAuth error from Slack:'', LVal err]])
            | Inl e \<Rightarrow>
                (let (resp, evc) = callback_catch e
                 in (resp, srv, ev0 @ [Console ERROR [LStr ''OAuth error from Slack:'', LVal err]] @ evc)))
         else
           (let ev1 = ev0 @ [Console LOG [LStr ''Checking for code and state...'']]
            in if \<not> truthy code \<or> \<not> truthy state then
                 (Send 200 (getErrorPage ''Missing authorization code or state''), srv,
                  ev1 @ [Console ERROR [LStr ''Missing code or state:'',
                           LObj [(''code'', LBool (truthy code)), (''state'', LBool (truthy state))]]])
               else
                 (let ev2 = ev1 @ [Console LOG [LStr ''Validating state...'']]
                  in case Map_get_v (pendingStates srv) state of
                       None \<Rightarrow>
                         (Send 200 (getErrorPage ''Invalid or expired state parameter''), srv,
                          ev2 @ [Console ERROR [LStr ''Invalid state:'', LVal state],
                                 Console LOG [LStr ''Available states:'', LArr (Map_keys (pendingStates srv))]])
                     | Some stateData \<Rightarrow>
                         (let ev3 = ev2 @ [Console LOG [LStr ''State validated:'', LState stateData],
                                           Console LOG [LStr ''Starting token exchange...'']];
                              (r, evx) = exchangeCodeForToken rt srv fetch code
                          in case r of
                               Inl e \<Rightarrow>
                                 (let (resp, evc) = callback_catch e
                                  in (resp, srv,
                                      ev3 @ evx @ [Console ERROR [LStr ''Token exchange failed:'', LErr e]] @ evc))
                             | Inr tokenData \<Rightarrow>
                                 (let ev4 = ev3 @ evx @ [Console LOG [LStr ''Token exchange completed''],
                                                         Console LOG [LStr ''Checking token data...'']]
                                  in if \<not> truthy tokenData \<or> \<not> truthy (prop_of tokenData ''authed_user'')
                                        \<or> \<not> truthy (prop_of (prop_of tokenData ''authed_user'') ''access_token'') then
                                       (let e = JsError ''Error'' ''Invalid token data received from Slack'';
                                            (resp, evc) = callback_catch e
                                        in (resp, srv,
                                            ev4 @ [Console ERROR [LStr ''Invalid token data received:'',
                                                                  LVal tokenData]] @ evc))
                                     else
                                       (let srv' = srv\<lparr>pendingStates :=
                                                     Map_delete_v (pendingStates srv) state\<rparr>;
                                            ev5 = ev4 @ [Console LOG [LStr ''Token data validated''],
                                                         Console LOG [LStr ''State cleaned up''],
                                                         Console LOG [LStr ''OAuth flow completed successfully - showing token to user''],
                                                         Console LOG [LStr ''Generating success page...'']];
                                            (p, evp) = getSuccessPageWithToken rt tokenData stateData generated
                                        in case p of
                                             Inl pageError \<Rightarrow>
                                               (Send 500 ''Success! Token generated, but error displaying page. Check server logs.'',
                                                srv',
                                                ev5 @ evp @
                                                [Console ERROR [LStr ''Error generating success page:'', LErr pageError],
                                                 Console ERROR [LStr ''Page error stack:'', LStack pageError]])
                                           | Inr successPage \<Rightarrow>
                                               (Send 200 successPage, srv',
                                                ev5 @ evp @
                                                [Console LOG [LStr ''Success page generated''],
                                                 Console LOG [LStr ''Sending response to user...''],
                                                 Console LOG [LStr ''Token displayed to user'']] @
                                                (case generated_line rt tokenData stateData of
                                                   Inr line \<Rightarrow> [Console LOG [LStr line]]
                                                 | Inl e \<Rightarrow> after_send rt e))))))))"

section \<open>The serverless handler (api/index.js)\<close>

text \<open>
  The module as it stands does not parse. Line 120, inside \<open>handleAuthStart\<close>, reads
  \<open>const userScopes = const userScopes = [\<close>: the head of the declaration is written
  twice, so the initializer begins with the reserved word \<open>const\<close>, with which no
  expression begins. A module that does not parse is not loaded: none of its functions
  runs, for any request. \<open>line_120\<close> is the line as a list of lexemes,
  \<open>declaration_head\<close> reads the head of a \<open>const\<close> declaration (the word, a name, the
  equals sign, then the first lexeme of the initializer), and \<open>api_index\<close> gives a run of
  the module's code only when the line parses.
\<close>

datatype lexeme = Const_word | Name string | Equals_sign | Open_bracket

definition line_120 :: "lexeme list" where
  "line_120 = [Const_word, Name ''userScopes'', Equals_sign,
               Const_word, Name ''userScopes'', Equals_sign, Open_bracket]"

fun declaration_head :: "lexeme list \<Rightarrow> bool" where
  "declaration_head (Const_word # Name x # Equals_sign # Name y # rest) = True"
| "declaration_head (Const_word # Name x # Equals_sign # Open_bracket # rest) = True"
| "declaration_head _ = False"

datatype 'a module_run = Syntax_error nat | Ran 'a

definition api_index :: "'a \<Rightarrow> 'a module_run" where
  "api_index run = (if declaration_head line_120 then Ran run else Syntax_error 120)"

text \<open>
  The two functions of the module as they are written, with the declaration of line 120
  read once (\<open>const userScopes = [\<close>). They describe the text of the file, not a run of
  it: a run goes through \<open>api_index\<close>. The handler reads its configuration from the
  environment at each request and keeps \<open>pendingStates\<close> in a module variable, passed
  here as an argument and returned. \<open>platform_redirect\<close> is the status that the
  platform gives to \<open>res.redirect(url)\<close>.
\<close>

definition handleAuthStart ::
  "nat \<Rightarrow> env \<Rightarrow> pending \<Rightarrow> string \<Rightarrow> int \<Rightarrow> (string \<times> string) list \<Rightarrow> response \<times> pending" where
  "handleAuthStart platform_redirect e m state now searchParams =
     (let userId = or_else (qparam searchParams ''user_id'') [];
          userName = or_else (qparam searchParams ''user_name'') [];
          m' = Map_set m state \<lparr>user_id = userId, user_name = userName, timestamp = now\<rparr>;
          userScopes = join '',''
            [''channels:history'', ''channels:read'', ''channels:write'', ''chat:write'',
             ''groups:read'', ''groups:write'', ''im:history'', ''im:write'',
             ''mpim:history'', ''users:read'', ''search:read''];
          clientId = SLACK_CLIENT_ID e;
          redirectUri = SLACK_REDIRECT_URI e
      in if \<not> present clientId \<or> \<not> present redirectUri then
           (Send 500 ''<h1>Server Configuration Error</h1><p>Missing Slack credentials</p>'', m')
         else
           (Redirect platform_redirect
              (''https://slack.com/oauth/v2/authorize?'' @
               ''client_id='' @ str_of clientId @ ''&'' @
               ''user_scope='' @ encodeURIComponent userScopes @ ''&'' @
               ''redirect_uri='' @ encodeURIComponent (str_of redirectUri) @ ''&'' @
               ''state='' @ state),
            m'))"

definition successHtml_template :: "string \<Rightarrow> string \<Rightarrow> string \<Rightarrow> string \<Rightarrow> string \<Rightarrow> string" where
  \<open>successHtml_template tok name team permissions generated =
     ''<!DOCTYPE html><html><head><title>Token Generated Successfully</title></head><body>'' @
     ''<div class="container"><div class="success-header"><h1>Your Slack Token is Ready!</h1>'' @
     ''<p>Copy your personal access token below</p></div>'' @
     ''<div class="token-section"><h3>Your Personal Access Token</h3>'' @
     ''<div class="token-display" id="tokenDisplay">'' @ tok @ ''</div>'' @
     ''<button class="copy-button" onclick="copyToken()">Copy Token to Clipboard</button></div>'' @
     ''<div class="info">'' @
     ''<p><strong>User:</strong> '' @ name @ ''</p>'' @
     ''<p><strong>Team:</strong> '' @ team @ ''</p>'' @
     ''<p><strong>Permissions:</strong> '' @ permissions @ ''</p>'' @
     ''<p><strong>Generated:</strong> '' @ generated @ ''</p></div>'' @
     ''</div></body></html>''\<close>

definition successHtml ::
  "runtime \<Rightarrow> jsval \<Rightarrow> jsval \<Rightarrow> jsval \<Rightarrow> jsval \<Rightarrow> string \<Rightarrow> js_error + string" where
  "successHtml rt userToken userName teamName scopes generated =
     (case toString rt userToken of Inl e \<Rightarrow> Inl e | Inr tok \<Rightarrow>
      case toString rt userName of Inl e \<Rightarrow> Inl e | Inr name \<Rightarrow>
      case toString rt teamName of Inl e \<Rightarrow> Inl e | Inr team \<Rightarrow>
      case scopes of
        JStr s \<Rightarrow> Inr (successHtml_template tok name team (replace_commas s) generated)
      | _ \<Rightarrow> Inl (not_a_function rt))"

text \<open>The \<open>catch\<close> of \<open>handleAuthCallback\<close>.\<close>

definition handler_catch :: "js_error \<Rightarrow> response \<times> event list" where
  \<open>handler_catch e =
     (Send 500 (''<h1>Token Exchange Failed</h1><p>'' @ message e @ ''</p><a href="/">Try Again</a>''),
      [Console ERROR [LStr ''Token exchange error:'', LErr e]])\<close>

definition handleAuthCallback ::
  "runtime \<Rightarrow> env \<Rightarrow> (fetch_request \<Rightarrow> fetch_result) \<Rightarrow> string \<Rightarrow> pending
     \<Rightarrow> (string \<times> string) list \<Rightarrow> response \<times> pending \<times> event list" where
  \<open>handleAuthCallback rt e fetch generated m searchParams =
     (let code = qparam searchParams ''code'';
          state = qparam searchParams ''state'';
          err = qparam searchParams ''error''
      in if present err then
           (Send 400 (''<h1>OAuth Error</h1><p>'' @ str_of err @ ''</p><a href="/">Try Again</a>''), m, [])
         else if \<not> present code \<or> \<not> present state then
           (Send 400 ''<h1>Missing Parameters</h1><p>Missing code or state</p><a href="/">Try Again</a>'', m, [])
         else
           (case Map_get m (str_of state) of
              None \<Rightarrow>
                (Send 400 ''<h1>Invalid State</h1><p>State expired or invalid</p><a href="/">Try Again</a>'', m, [])
            | Some stateData \<Rightarrow>
                (let rq = exchange_request (SLACK_CLIENT_ID e) (SLACK_CLIENT_SECRET e)
                            (str_of code) (str_of (SLACK_REDIRECT_URI e))
                 in case fetch rq of
                      Rejected x \<Rightarrow>
                        (let (resp, evc) = handler_catch x in (resp, m, Fetch rq # evc))
                    | Resolved r \<Rightarrow>
                        (case body_json r of
                           Inl x \<Rightarrow>
                             (let (resp, evc) = handler_catch x in (resp, m, Fetch rq # evc))
                         | Inr tokenData \<Rightarrow>
                             if nullish tokenData then
                               (let (resp, evc) = handler_catch (null_read rt)
                                in (resp, m, Fetch rq # evc))
                             else if \<not> truthy (prop_of tokenData ''ok'') then
                               (let x = (case toString rt (js_or (prop_of tokenData ''error'')
                                                              (JStr ''Token exchange failed'')) of
                                           Inl t \<Rightarrow> t
                                         | Inr s \<Rightarrow> JsError ''Error'' s);
                                    (resp, evc) = handler_catch x
                                in (resp, m, Fetch rq # evc))
                             else
                               (let m' = Map_delete m (str_of state);
                                    userToken = js_or (prop_of (prop_of tokenData ''authed_user'') ''access_token'')
                                                  (JStr ''No token generated'');
                                    userName = js_or (prop_of (prop_of tokenData ''authed_user'') ''name'')
                                                 (js_or (JStr (user_name stateData)) (JStr ''Unknown User''));
                                    teamName = js_or (prop_of (prop_of tokenData ''team'') ''name'') (JStr ''Unknown Team'');
                                    scopes = js_or (prop_of (prop_of tokenData ''authed_user'') ''scope'') (JStr ''No scopes'')
                                in case successHtml rt userToken userName teamName scopes generated of
                                     Inr page \<Rightarrow> (Send 200 page, m', [Fetch rq])
                                   | Inl x \<Rightarrow>
                                       (let (resp, evc) = handler_catch x
                                        in (resp, m', Fetch rq # evc)))))))\<close>


definition serverless_auth_callback ::
  "runtime \<Rightarrow> env \<Rightarrow> (fetch_request \<Rightarrow> fetch_result) \<Rightarrow> string \<Rightarrow> pending
     \<Rightarrow> (string \<times> string) list \<Rightarrow> (response \<times> pending \<times> event list) module_run" where
  "serverless_auth_callback rt e fetch generated m searchParams =
     api_index (handleAuthCallback rt e fetch generated m searchParams)"

section \<open>Observations on a run\<close>

text \<open>The outbound calls of a run, in order.\<close>

definition fetches :: "event list \<Rightarrow> fetch_request list" where
  "fetches evs =
     concat (map (\<lambda>ev. case ev of Fetch rq \<Rightarrow> [rq] | Console l a \<Rightarrow> [] | Uncaught e \<Rightarrow> []) evs)"

text \<open>The console output of a run, in order.\<close>

definition console :: "event list \<Rightarrow> (level \<times> logarg list) list" where
  "console evs =
     concat (map (\<lambda>ev. case ev of Fetch rq \<Rightarrow> [] | Console l a \<Rightarrow> [(l, a)] | Uncaught e \<Rightarrow> []) evs)"

text \<open>The errors that left a route, in order.\<close>

definition uncaught :: "event list \<Rightarrow> js_error list" where
  "uncaught evs =
     concat (map (\<lambda>ev. case ev of Fetch rq \<Rightarrow> [] | Console l a \<Rightarrow> [] | Uncaught e \<Rightarrow> [e]) evs)"

text \<open>
  The events of a callback of the server from its start to the call of
  \<open>getSuccessPageWithToken\<close>, for a state \<open>sd\<close> found in the store and an answer
  that carries a token.
\<close>

definition validated_events ::
  "runtime \<Rightarrow> server \<Rightarrow> (fetch_request \<Rightarrow> fetch_result) \<Rightarrow> request \<Rightarrow> state_data \<Rightarrow> event list" where
  "validated_events rt srv fetch req sd =
     [Console LOG [LStr ''OAuth callback received''],
      Console LOG [LStr ''Query params:'', LVal (JObj (query req))],
      Console LOG [LStr ''Request URL:'', LStr (req_url req)],
      Console LOG [LStr ''Request headers:'', LVal (JObj (req_headers req))],
      Console LOG [LStr ''Checking for OAuth errors...''],
      Console LOG [LStr ''Checking for code and state...''],
      Console LOG [LStr ''Validating state...''],
      Console LOG [LStr ''State validated:'', LState sd],
      Console LOG [LStr ''Starting token exchange...'']]
     @ snd (exchangeCodeForToken rt srv fetch (query_value (query req) ''code''))
     @ [Console LOG [LStr ''Token exchange completed''],
        Console LOG [LStr ''Checking token data...''],
        Console LOG [LStr ''Token data validated''],
        Console LOG [LStr ''State cleaned up''],
        Console LOG [LStr ''OAuth flow completed successfully - showing token to user''],
        Console LOG [LStr ''Generating success page...'']]"

section \<open>Text of a console line\<close>

text \<open>
  The strings that the printed form of a console argument is made of (for a value: its
  keys and the texts of its leaves), and whether a given text occurs in one of them.
\<close>

fun strings_of_val :: "jsval \<Rightarrow> string list" where
  "strings_of_val JUndefined = [''undefined'']"
| "strings_of_val JNull = [''null'']"
| "strings_of_val (JBool b) = [if b then ''true'' else ''false'']"
| "strings_of_val (JNum nz t) = [t]"
| "strings_of_val (JStr s) = [s]"
| "strings_of_val (JArr xs) = concat (map strings_of_val xs)"
| "strings_of_val (JObj kvs) = concat (map (\<lambda>(k, v). k # strings_of_val v) kvs)"

fun strings_of :: "logarg \<Rightarrow> string list" where
  "strings_of (LStr s) = [s]"
| "strings_of (LBool b) = [if b then ''true'' else ''false'']"
| "strings_of (LNum n) = [string_of_int n]"
| "strings_of (LVal v) = strings_of_val v"
| "strings_of (LObj kvs) = concat (map (\<lambda>(k, v). k # strings_of v) kvs)"
| "strings_of (LArr xs) = xs"
| "strings_of (LErr e) = [err_name e, message e]"
| "strings_of (LStack e) = [err_name e, message e]"
| "strings_of (LState sd) = [user_id sd, user_name sd, string_of_int (timestamp sd)]"

definition mentions :: "string \<Rightarrow> level \<times> logarg list \<Rightarrow> bool" where
  "mentions t line = list_ex (\<lambda>a. list_ex (sublist t) (strings_of a)) (snd line)"

section \<open>Runs used as examples\<close>

text \<open>
  A runtime, a configured server and environment, the provider's answers of the
  specification's examples (a refused code, and a token \<open>xoxp-test\<close>), and a flow in
  which the exchange fails and the same callback arrives a second time.
\<close>

definition demo_runtime :: runtime where
  "demo_runtime =
     \<lparr> not_primitive = JsError ''TypeError'' ''Cannot convert object to primitive value'',
       not_a_function = JsError ''TypeError'' ''scopes.replace is not a function'',
       null_read = JsError ''TypeError'' ''Cannot read properties of null'',
       headers_sent = JsError ''Error'' ''Cannot set headers after they are sent to the client'' \<rparr>"

definition demo_env :: env where
  "demo_env =
     \<lparr> SLACK_CLIENT_ID = Some ''cid'', SLACK_CLIENT_SECRET = Some ''sec'',
       SLACK_REDIRECT_URI = Some ''https://relay.example/auth/callback'', PORT = None \<rparr>"

definition demo_data :: jsval where
  "demo_data =
     JObj [(''ok'', JBool True),
           (''authed_user'', JObj [(''access_token'', JStr ''xoxp-test''), (''id'', JStr ''U1''),
                                   (''name'', JStr ''Test''), (''scope'', JStr ''a,b'')]),
           (''team'', JObj [(''name'', JStr ''T'')])]"

definition fetch_token :: "fetch_request \<Rightarrow> fetch_result" where
  "fetch_token rq =
     Resolved \<lparr> status = 200, statusText = ''OK'', body_text = ''{ok:true,...}'',
                body_json = Inr demo_data \<rparr>"

definition fetch_invalid_code :: "fetch_request \<Rightarrow> fetch_result" where
  "fetch_invalid_code rq =
     Resolved \<lparr> status = 200, statusText = ''OK'', body_text = ''{ok:false,error:invalid_code}'',
                body_json = Inr (JObj [(''ok'', JBool False), (''error'', JStr ''invalid_code'')]) \<rparr>"

definition demo_callback :: request where
  "demo_callback =
     \<lparr> query = [(''code'', JStr ''abc''), (''state'', JStr ''5f1c'')],
       req_url = ''/auth/callback?code=abc&state=5f1c'', req_headers = [] \<rparr>"

definition demo_started :: server where
  "demo_started =
     fst (snd (auth_start (UserTokenGenerator demo_env) ''5f1c'' 1000
                 \<lparr> query = [(''user_id'', JStr ''u1'')], req_url = ''/auth/start?user_id=u1'',
                   req_headers = [] \<rparr>))"

definition replay_first :: "response \<times> server \<times> event list" where
  "replay_first = auth_callback demo_runtime demo_started fetch_invalid_code ''t1'' demo_callback"

definition replay_second :: "response \<times> server \<times> event list" where
  "replay_second =
     auth_callback demo_runtime (fst (snd replay_first)) fetch_invalid_code ''t2'' demo_callback"

text \<open>The same flow through the functions of the serverless module as they are written.\<close>

definition handler_started :: pending where
  "handler_started = snd (handleAuthStart 307 demo_env [] ''5f1c'' 1000 [(''user_id'', ''u1'')])"

definition handler_replay_first :: "response \<times> pending \<times> event list" where
  "handler_replay_first =
     handleAuthCallback demo_runtime demo_env fetch_invalid_code ''t1'' handler_started
       [(''code'', ''abc''), (''state'', ''5f1c'')]"

text \<open>The same answer of the provider with another token in it.\<close>

definition fetch_other_token :: "fetch_request \<Rightarrow> fetch_result" where
  "fetch_other_token rq =
     Resolved \<lparr> status = 200, statusText = ''OK'', body_text = ''{ok:true,other}'',
                body_json = Inr (JObj [(''ok'', JBool True),
                  (''authed_user'', JObj [(''access_token'', JStr ''xoxp-other''), (''id'', JStr ''U1''),
                                          (''name'', JStr ''Test''), (''scope'', JStr ''a,b'')]),
                  (''team'', JObj [(''name'', JStr ''T'')])]) \<rparr>"

text \<open>An answer of the provider whose \<open>scope\<close> is a number, not a string.\<close>

definition odd_data :: jsval where
  "odd_data =
     JObj [(''ok'', JBool True),
           (''authed_user'', JObj [(''access_token'', JStr ''xoxp-test''), (''id'', JStr ''U1''),
                                   (''name'', JStr ''Test''), (''scope'', JNum True ''7'')]),
           (''team'', JObj [(''name'', JStr ''T'')])]"

definition fetch_odd_scope :: "fetch_request \<Rightarrow> fetch_result" where
  "fetch_odd_scope rq =
     Resolved \<lparr> status = 200, statusText = ''OK'', body_text = ''{ok:true,scope:7}'',
                body_json = Inr odd_data \<rparr>"

text \<open>
  An answer of the provider whose \<open>access_token\<close> is an object with a property
  \<open>toString\<close>: a truthy value that has no text.
\<close>

definition opaque_data :: jsval where
  "opaque_data =
     JObj [(''ok'', JBool True),
           (''authed_user'', JObj [(''access_token'', JObj [(''toString'', JNum True ''1'')]),
                                   (''id'', JStr ''U1''), (''name'', JStr ''Test''),
                                   (''scope'', JStr ''a,b'')]),
           (''team'', JObj [(''name'', JStr ''T'')])]"

definition fetch_opaque_token :: "fetch_request \<Rightarrow> fetch_result" where
  "fetch_opaque_token rq =
     Resolved \<lparr> status = 200, statusText = ''OK'',
                body_text = ''{ok:true,authed_user:{access_token:{toString:1},...}}'',
                body_json = Inr opaque_data \<rparr>"

text \<open>
  Answers of the provider that report a failure and carry a token all the same: in the
  body of a response with status 500, and in an answer whose \<open>ok\<close> is \<open>false\<close>.
\<close>

definition fetch_500_with_token :: "fetch_request \<Rightarrow> fetch_result" where
  "fetch_500_with_token rq =
     Resolved \<lparr> status = 500, statusText = ''Internal Server Error'',
                body_text = ''{ok:true,authed_user:{access_token:xoxp-test}}'',
                body_json = Inr demo_data \<rparr>"

definition fetch_refused_with_token :: "fetch_request \<Rightarrow> fetch_result" where
  "fetch_refused_with_token rq =
     Resolved \<lparr> status = 200, statusText = ''OK'',
                body_text = ''{ok:false,error:invalid_code,authed_user:{access_token:xoxp-test}}'',
                body_json = Inr (JObj [(''ok'', JBool False), (''error'', JStr ''invalid_code''),
                                       (''authed_user'', JObj [(''access_token'', JStr ''xoxp-test'')])]) \<rparr>"

text \<open>A callback whose \<open>error\<close> parameter is there and empty.\<close>

definition empty_error_callback :: request where
  "empty_error_callback =
     \<lparr> query = [(''error'', JStr ''''), (''code'', JStr ''abc''), (''state'', JStr ''5f1c'')],
       req_url = ''/auth/callback?error=&code=abc&state=5f1c'', req_headers = [] \<rparr>"

text \<open>A callback whose \<open>state\<close> parameter occurs twice, with the stored value.\<close>

definition twice_state_callback :: request where
  "twice_state_callback =
     \<lparr> query = [(''code'', JStr ''abc''), (''state'', JArr [JStr ''5f1c'', JStr ''5f1c''])],
       req_url = ''/auth/callback?code=abc&state=5f1c&state=5f1c'', req_headers = [] \<rparr>"


text \<open>A server whose environment has no \<open>SLACK_REDIRECT_URI\<close>.\<close>

definition no_callback_url_env :: env where
  "no_callback_url_env =
     \<lparr> SLACK_CLIENT_ID = Some ''cid'', SLACK_CLIENT_SECRET = Some ''sec'',
       SLACK_REDIRECT_URI = None, PORT = None \<rparr>"

text \<open>A start request whose free-text parameters carry markup.\<close>

definition markup_request :: request where
  "markup_request =
     \<lparr> query = [(''user_id'', JStr ''<script>''), (''user_name'', JStr ''  a&b  '')],
       req_url = ''/auth/start?user_id=%3Cscript%3E&user_name=++a%26b++'', req_headers = [] \<rparr>"

section \<open>Properties\<close>

subsection \<open>The store\<close>

lemma Map_get_set_same: "Map_get (Map_set m k v) k = Some v"
  by (induction m k v rule: Map_set.induct) (simp_all add: Map_get_def)

lemma Map_get_set_other: "k' \<noteq> k \<Longrightarrow> Map_get (Map_set m k v) k' = Map_get m k'"
  by (induction m k v rule: Map_set.induct) (simp_all add: Map_get_def)

lemma Map_keys_set: "set (Map_keys (Map_set m k v)) = insert k (set (Map_keys m))"
  by (induction m k v rule: Map_set.induct) (auto simp: Map_keys_def)

lemma length_Map_set:
  "length (Map_set m k v) = (if k \<in> set (Map_keys m) then length m else Suc (length m))"
  by (induction m k v rule: Map_set.induct) (auto simp: Map_keys_def)

lemma Map_get_delete: "Map_get (Map_delete m k) k' = (if k' = k then None else Map_get m k')"
  by (induction m) (auto simp: Map_get_def Map_delete_def)

lemma wf_store_set: "wf_store m \<Longrightarrow> wf_store (Map_set m k v)"
proof (induction m k v rule: Map_set.induct)
  case (1 k v)
  then show ?case by (simp add: wf_store_def Map_keys_def)
next
  case (2 k' v' m k v)
  have "set (map fst (Map_set m k v)) = insert k (set (map fst m))"
    using Map_keys_set [of m k v] by (simp add: Map_keys_def)
  with 2 show ?case by (auto simp: wf_store_def Map_keys_def)
qed

lemma wf_store_delete: "wf_store m \<Longrightarrow> wf_store (Map_delete m k)"
  by (simp add: wf_store_def Map_keys_def Map_delete_def distinct_map_filter)

lemma Map_get_filter:
  assumes "wf_store m"
  shows "Map_get (filter (\<lambda>(k, d). P d) m) k =
           (case Map_get m k of None \<Rightarrow> None | Some d \<Rightarrow> if P d then Some d else None)"
  using assms
proof (induction m)
  case Nil
  then show ?case by (simp add: Map_get_def)
next
  case (Cons e m)
  obtain k' d' where e: "e = (k', d')" by (cases e)
  from Cons.prems have wf: "wf_store m" and fresh: "k' \<notin> fst ` set m"
    by (simp_all add: wf_store_def Map_keys_def e)
  from fresh have none: "map_of m k' = None" by (simp add: map_of_eq_None_iff)
  from Cons.IH [OF wf] none show ?case
    by (auto simp: Map_get_def e)
qed

subsection \<open>The sweep\<close>

lemma cleanup_loop_fst:
  "fst (cleanup_loop now es (m, c)) =
     filter (\<lambda>(k, d). k \<notin> fst ` {e \<in> set es. now - timestamp (snd e) > tenMinutes}) m"
proof (induction es arbitrary: m c)
  case Nil
  then show ?case by simp
next
  case (Cons e es)
  obtain state data where e: "e = (state, data)" by (cases e)
  show ?case
  proof (cases "now - timestamp data > tenMinutes")
    case True
    have "fst (cleanup_loop now (e # es) (m, c)) = fst (cleanup_loop now es (Map_delete m state, c + 1))"
      using True e by simp
    also have "\<dots> = filter (\<lambda>(k, d). k \<notin> fst ` {e \<in> set es. now - timestamp (snd e) > tenMinutes})
                        (Map_delete m state)"
      by (rule Cons.IH)
    also have "\<dots> = filter (\<lambda>(k, d). k \<notin> fst ` {x \<in> set (e # es). now - timestamp (snd x) > tenMinutes}) m"
      using True e by (force simp: Map_delete_def intro!: filter_cong)
    finally show ?thesis .
  next
    case False
    have "fst (cleanup_loop now (e # es) (m, c)) = fst (cleanup_loop now es (m, c))"
      using False e by simp
    also have "\<dots> = filter (\<lambda>(k, d). k \<notin> fst ` {e \<in> set es. now - timestamp (snd e) > tenMinutes}) m"
      by (rule Cons.IH)
    also have "\<dots> = filter (\<lambda>(k, d). k \<notin> fst ` {x \<in> set (e # es). now - timestamp (snd x) > tenMinutes}) m"
      using False e by (auto intro!: filter_cong)
    finally show ?thesis .
  qed
qed

lemma cleanup_loop_store:
  assumes "wf_store m"
  shows "fst (cleanup_loop now m (m, c)) = filter (\<lambda>(k, d). \<not> now - timestamp d > tenMinutes) m"
proof -
  have "k \<in> fst ` {e \<in> set m. now - timestamp (snd e) > tenMinutes} \<longleftrightarrow> now - timestamp d > tenMinutes"
    if "(k, d) \<in> set m" for k d
  proof
    assume "k \<in> fst ` {e \<in> set m. now - timestamp (snd e) > tenMinutes}"
    then obtain d' where d': "(k, d') \<in> set m" "now - timestamp d' > tenMinutes" by auto
    from assms have "distinct (map fst m)" by (simp add: wf_store_def Map_keys_def)
    with that d'(1) have "d' = d" by (meson eq_key_imp_eq_value)
    with d'(2) show "now - timestamp d > tenMinutes" by simp
  next
    assume "now - timestamp d > tenMinutes"
    with that show "k \<in> fst ` {e \<in> set m. now - timestamp (snd e) > tenMinutes}" by force
  qed
  then show ?thesis
    unfolding cleanup_loop_fst by (auto intro!: filter_cong)
qed

lemma cleanup_loop_count:
  "snd (cleanup_loop now es (m, c)) =
     c + length (filter (\<lambda>(k, d). now - timestamp d > tenMinutes) es)"
  by (induction es arbitrary: m c) auto

lemma cleanupStates_store:
  assumes "wf_store (pendingStates srv)"
  shows "pendingStates (fst (cleanupStates now srv)) =
           filter (\<lambda>(k, d). \<not> now - timestamp d > tenMinutes) (pendingStates srv)"
proof -
  obtain m cleaned where r: "cleanup_loop now (pendingStates srv) (pendingStates srv, 0) = (m, cleaned)"
    by (cases "cleanup_loop now (pendingStates srv) (pendingStates srv, 0)")
  with cleanup_loop_store [OF assms, of now 0]
  have "m = filter (\<lambda>(k, d). \<not> now - timestamp d > tenMinutes) (pendingStates srv)" by simp
  with r show ?thesis by (simp add: cleanupStates_def)
qed

text \<open>
  C5. For every store (a map: no key twice) and every time \<open>now\<close>, \<open>cleanupStates\<close>
  removes exactly the entries with \<open>now - timestamp > tenMinutes\<close> (ten minutes, in
  milliseconds) and keeps every other entry as it was, in place: the store afterwards is
  the store before without the expired entries, a lookup of a remaining key gives the
  metadata it gave before, and nothing else of the server changes.
\<close>

theorem cleanupStates_sweeps_exactly:
  assumes "wf_store (pendingStates srv)"
  shows "pendingStates (fst (cleanupStates now srv)) =
           filter (\<lambda>(k, d). \<not> now - timestamp d > tenMinutes) (pendingStates srv)
         \<and> (\<forall>k. Map_get (pendingStates (fst (cleanupStates now srv))) k =
                 (case Map_get (pendingStates srv) k of
                    None \<Rightarrow> None
                  | Some d \<Rightarrow> if \<not> now - timestamp d > tenMinutes then Some d else None))
         \<and> fst (cleanupStates now srv) =
             srv\<lparr>pendingStates := pendingStates (fst (cleanupStates now srv))\<rparr>
         \<and> tenMinutes = 600000"
proof -
  have store: "pendingStates (fst (cleanupStates now srv)) =
                 filter (\<lambda>(k, d). \<not> now - timestamp d > tenMinutes) (pendingStates srv)"
    by (rule cleanupStates_store [OF assms])
  have lookup: "Map_get (pendingStates (fst (cleanupStates now srv))) k =
                 (case Map_get (pendingStates srv) k of
                    None \<Rightarrow> None
                  | Some d \<Rightarrow> if \<not> now - timestamp d > tenMinutes then Some d else None)" for k
    unfolding store by (rule Map_get_filter [OF assms])
  have frame: "fst (cleanupStates now srv) =
                 srv\<lparr>pendingStates := pendingStates (fst (cleanupStates now srv))\<rparr>"
    by (simp add: cleanupStates_def split: prod.splits)
  from store lookup frame show ?thesis by (simp add: tenMinutes_def)
qed

theorem cleanupStates_sweeps_exactly_witness:
  "wf_store (pendingStates
       \<lparr>port = ''3000'', clientId = Some ''cid'', clientSecret = Some ''sec'',
        redirectUri = ''http://localhost:3000/auth/callback'',
        pendingStates =
          [(''a'', \<lparr>user_id = ''u1'', user_name = ''Ann'', timestamp = 0\<rparr>),
           (''b'', \<lparr>user_id = ''u2'', user_name = ''Bob'', timestamp = 100000\<rparr>),
           (''c'', \<lparr>user_id = ''u3'', user_name = ''Cy'', timestamp = 99999\<rparr>)]\<rparr>)
   \<and> pendingStates (fst (cleanupStates 700000
       \<lparr>port = ''3000'', clientId = Some ''cid'', clientSecret = Some ''sec'',
        redirectUri = ''http://localhost:3000/auth/callback'',
        pendingStates =
          [(''a'', \<lparr>user_id = ''u1'', user_name = ''Ann'', timestamp = 0\<rparr>),
           (''b'', \<lparr>user_id = ''u2'', user_name = ''Bob'', timestamp = 100000\<rparr>),
           (''c'', \<lparr>user_id = ''u3'', user_name = ''Cy'', timestamp = 99999\<rparr>)]\<rparr>))
     = [(''b'', \<lparr>user_id = ''u2'', user_name = ''Bob'', timestamp = 100000\<rparr>)]"
  using cleanupStates_sweeps_exactly [of
       "\<lparr>port = ''3000'', clientId = Some ''cid'', clientSecret = Some ''sec'',
        redirectUri = ''http://localhost:3000/auth/callback'',
        pendingStates =
          [(''a'', \<lparr>user_id = ''u1'', user_name = ''Ann'', timestamp = 0\<rparr>),
           (''b'', \<lparr>user_id = ''u2'', user_name = ''Bob'', timestamp = 100000\<rparr>),
           (''c'', \<lparr>user_id = ''u3'', user_name = ''Cy'', timestamp = 99999\<rparr>)]\<rparr>" 700000]
  by (simp add: wf_store_def Map_keys_def tenMinutes_def)

subsection \<open>Events\<close>

lemma fetches_simps [simp]:
  "fetches [] = []"
  "fetches (Console l a # evs) = fetches evs"
  "fetches (Fetch rq # evs) = rq # fetches evs"
  "fetches (Uncaught x # evs) = fetches evs"
  "fetches (xs @ ys) = fetches xs @ fetches ys"
  by (simp_all add: fetches_def)

lemma console_simps [simp]:
  "console [] = []"
  "console (Console l a # evs) = (l, a) # console evs"
  "console (Fetch rq # evs) = console evs"
  "console (Uncaught x # evs) = console evs"
  "console (xs @ ys) = console xs @ console ys"
  by (simp_all add: console_def)

lemma uncaught_simps [simp]:
  "uncaught [] = []"
  "uncaught (Console l a # evs) = uncaught evs"
  "uncaught (Fetch rq # evs) = uncaught evs"
  "uncaught (Uncaught x # evs) = x # uncaught evs"
  "uncaught (xs @ ys) = uncaught xs @ uncaught ys"
  by (simp_all add: uncaught_def)

lemma fetches_exchange_catch [simp]: "fetches (exchange_catch e) = []"
  by (simp add: exchange_catch_def)

lemma fetches_callback_catch [simp]: "fetches (snd (callback_catch e)) = []"
  by (simp add: callback_catch_def)

lemma fst_callback_catch [simp]:
  "fst (callback_catch e) = Send 200 (getErrorPage (''Token exchange failed: '' @ message e))"
  by (simp add: callback_catch_def)

lemma fetches_after_send [simp]: "fetches (after_send rt e) = []"
  by (simp add: after_send_def)

lemma fetches_success_page [simp]: "fetches (snd (getSuccessPageWithToken rt d sd g)) = []"
  by (cases "success_page_try rt d sd g") (simp_all add: getSuccessPageWithToken_def)

lemma present_Some [simp]: "present (Some s) = (s \<noteq> [])"
  by (simp add: present_def opt_val_def)

lemma present_None [simp]: "present None = False"
  by (simp add: present_def opt_val_def)

lemma str_of_Some [simp]: "str_of (Some s) = s"
  by (simp add: str_of_def)

lemma query_value_simps [simp]:
  "query_value [] k = JUndefined"
  "query_value ((k', v) # q) k = (if k' = k then v else query_value q k)"
  by (simp_all add: query_value_def)

lemma Map_get_v_simps [simp]:
  "Map_get_v m (JStr s) = Map_get m s"
  "Map_get_v m JUndefined = None"
  "Map_get_v m JNull = None"
  "Map_get_v m (JBool b) = None"
  "Map_get_v m (JNum nz t) = None"
  "Map_get_v m (JArr xs) = None"
  "Map_get_v m (JObj kvs) = None"
  by (simp_all add: Map_get_v_def)

lemma Map_get_v_Some:
  "Map_get_v m x = Some sd \<longleftrightarrow> (\<exists>s. x = JStr s \<and> Map_get m s = Some sd)"
  by (cases x) simp_all

lemma Map_delete_v_JStr [simp]: "Map_delete_v m (JStr s) = Map_delete m s"
  by (simp add: Map_delete_v_def)

subsection \<open>The token exchange of the server\<close>

lemma exchange_no_request:
  assumes "toString rt code = Inl e"
  shows "fst (exchangeCodeForToken rt srv fetch code) = Inl e"
    and "fetches (snd (exchangeCodeForToken rt srv fetch code)) = []"
  using assms by (simp_all add: exchangeCodeForToken_def Let_def)

lemma exchange_single_fetch:
  assumes "toString rt code = Inr cd"
  shows "fetches (snd (exchangeCodeForToken rt srv fetch code)) =
     [exchange_request (clientId srv) (clientSecret srv) cd (redirectUri srv)]"
proof (cases "fetch (exchange_request (clientId srv) (clientSecret srv) cd (redirectUri srv))")
  case (Rejected e)
  with assms show ?thesis by (simp add: exchangeCodeForToken_def Let_def)
next
  case (Resolved r)
  show ?thesis
  proof (cases "response_ok r")
    case False
    with assms Resolved show ?thesis by (simp add: exchangeCodeForToken_def Let_def)
  next
    case True
    show ?thesis
    proof (cases "body_json r")
      case (Inl e)
      with assms Resolved True show ?thesis by (simp add: exchangeCodeForToken_def Let_def)
    next
      case (Inr data)
      with assms Resolved True show ?thesis by (simp add: exchangeCodeForToken_def Let_def)
    qed
  qed
qed

lemma exchange_fetches:
  "fetches (snd (exchangeCodeForToken rt srv fetch code)) =
     (case toString rt code of
        Inl e \<Rightarrow> []
      | Inr cd \<Rightarrow> [exchange_request (clientId srv) (clientSecret srv) cd (redirectUri srv)])"
  using exchange_no_request(2) [of rt code _ srv fetch] exchange_single_fetch [of rt code _ srv fetch]
  by (cases "toString rt code") simp_all

lemma exchange_rejected:
  assumes "toString rt code = Inr cd"
    and "fetch (exchange_request (clientId srv) (clientSecret srv) cd (redirectUri srv)) = Rejected e"
  shows "fst (exchangeCodeForToken rt srv fetch code) = Inl e"
  using assms by (simp add: exchangeCodeForToken_def Let_def)

lemma exchange_http_error:
  assumes "toString rt code = Inr cd"
    and "fetch (exchange_request (clientId srv) (clientSecret srv) cd (redirectUri srv)) = Resolved r"
    and "\<not> response_ok r"
  shows "fst (exchangeCodeForToken rt srv fetch code) =
           Inl (JsError ''Error'' (''HTTP error! status: '' @ string_of_nat (status r) @ '' - '' @ body_text r))"
  using assms by (simp_all add: exchangeCodeForToken_def Let_def)

lemma exchange_bad_json:
  assumes "toString rt code = Inr cd"
    and "fetch (exchange_request (clientId srv) (clientSecret srv) cd (redirectUri srv)) = Resolved r"
    and "response_ok r" and "body_json r = Inl e"
  shows "fst (exchangeCodeForToken rt srv fetch code) = Inl e"
  using assms by (simp add: exchangeCodeForToken_def Let_def)

lemma exchange_null:
  assumes "toString rt code = Inr cd"
    and "fetch (exchange_request (clientId srv) (clientSecret srv) cd (redirectUri srv)) = Resolved r"
    and "response_ok r" and "body_json r = Inr data" and "nullish data"
  shows "fst (exchangeCodeForToken rt srv fetch code) = Inl (null_read rt)"
  using assms by (simp add: exchangeCodeForToken_def Let_def)

lemma exchange_not_ok:
  assumes "toString rt code = Inr cd"
    and "fetch (exchange_request (clientId srv) (clientSecret srv) cd (redirectUri srv)) = Resolved r"
    and "response_ok r" and "body_json r = Inr data" and "\<not> nullish data"
    and "\<not> truthy (prop_of data ''ok'')"
  shows "fst (exchangeCodeForToken rt srv fetch code) =
           Inl (case toString rt (prop_of data ''error'') of
                  Inl t \<Rightarrow> t
                | Inr s \<Rightarrow> JsError ''Error'' (''OAuth exchange failed: '' @ s))"
  using assms by (simp_all add: exchangeCodeForToken_def Let_def)

lemma truthy_not_nullish: "truthy v \<Longrightarrow> \<not> nullish v"
  by (auto simp: nullish_def)

lemma prop_of_nullish [simp]: "nullish v \<Longrightarrow> prop_of v k = JUndefined"
  by (auto simp: nullish_def prop_of_def)

lemma truthy_prop_not_nullish: "truthy (prop_of v k) \<Longrightarrow> \<not> nullish v"
  by (auto simp: nullish_def prop_of_def)

text \<open>What the exchange returns is an answer whose \<open>ok\<close> is truthy, read from a response
  with a status from 200 to 299.\<close>

lemma exchange_Inr_iff:
  "fst (exchangeCodeForToken rt srv fetch code) = Inr data \<longleftrightarrow>
     (\<exists>cd r. toString rt code = Inr cd
          \<and> fetch (exchange_request (clientId srv) (clientSecret srv) cd (redirectUri srv)) = Resolved r
          \<and> response_ok r \<and> body_json r = Inr data \<and> truthy (prop_of data ''ok''))"
proof (cases "toString rt code")
  case (Inl e)
  then show ?thesis by (simp add: exchangeCodeForToken_def Let_def)
next
  case cd: (Inr cd)
  show ?thesis
  proof (cases "fetch (exchange_request (clientId srv) (clientSecret srv) cd (redirectUri srv))")
    case (Rejected e)
    with cd show ?thesis by (simp add: exchangeCodeForToken_def Let_def)
  next
    case (Resolved r)
    show ?thesis
    proof (cases "response_ok r")
      case False
      with cd Resolved show ?thesis by (simp add: exchangeCodeForToken_def Let_def)
    next
      case True
      show ?thesis
      proof (cases "body_json r")
        case (Inl e)
        with cd Resolved True show ?thesis by (simp add: exchangeCodeForToken_def Let_def)
      next
        case (Inr d)
        show ?thesis
        proof (cases "nullish d")
          case n: True
          with cd Resolved Inr True show ?thesis
            by (auto simp add: exchangeCodeForToken_def Let_def)
        next
          case n: False
          with cd Resolved Inr True show ?thesis
            by (auto simp add: exchangeCodeForToken_def Let_def)
        qed
      qed
    qed
  qed
qed

subsection \<open>Values\<close>

lemma truthy_prop_of_JObj: "truthy (prop_of v k) \<Longrightarrow> \<exists>kvs. v = JObj kvs"
  by (cases v) (simp_all add: prop_of_def)

lemma truthy_token_of:
  assumes "truthy (token_of d)"
  shows "truthy d" and "truthy (prop_of d ''authed_user'')"
proof -
  from assms have "\<exists>kvs. prop_of d ''authed_user'' = JObj kvs"
    unfolding token_of_def by (rule truthy_prop_of_JObj)
  then show au: "truthy (prop_of d ''authed_user'')" by auto
  then have "\<exists>kvs. d = JObj kvs" by (rule truthy_prop_of_JObj)
  then show "truthy d" by auto
qed

lemma token_check_iff:
  "(\<not> truthy d \<or> \<not> truthy (prop_of d ''authed_user'')
      \<or> \<not> truthy (prop_of (prop_of d ''authed_user'') ''access_token''))
   \<longleftrightarrow> \<not> truthy (token_of d)"
  using truthy_token_of [of d] by (auto simp: token_of_def)

lemma map_of_with_prop:
  "map_of (map (\<lambda>(k', y). if k' = k then (k', x) else (k', y)) kvs) k' =
     (if k' = k then (case map_of kvs k of None \<Rightarrow> None | Some y \<Rightarrow> Some x) else map_of kvs k')"
  by (induction kvs) auto

lemma prop_of_with_prop_other: "k' \<noteq> k \<Longrightarrow> prop_of (with_prop v k x) k' = prop_of v k'"
  by (cases v) (simp_all add: prop_of_def with_prop_def map_of_with_prop)

lemma prop_of_with_prop_same:
  "truthy (prop_of v k) \<Longrightarrow> prop_of (with_prop v k x) k = x"
  by (cases v) (auto simp add: prop_of_def with_prop_def map_of_with_prop split: option.splits)

lemma with_token_props:
  assumes "truthy (token_of d)"
  shows "token_of (with_token d t) = t"
    and "k \<noteq> ''authed_user'' \<Longrightarrow> prop_of (with_token d t) k = prop_of d k"
    and "k \<noteq> ''access_token'' \<Longrightarrow>
           prop_of (prop_of (with_token d t) ''authed_user'') k = prop_of (prop_of d ''authed_user'') k"
    and "truthy (prop_of (with_token d t) ''authed_user'')"
proof -
  from assms have au: "truthy (prop_of d ''authed_user'')" by (rule truthy_token_of)
  have a: "prop_of (with_token d t) ''authed_user'' =
             with_prop (prop_of d ''authed_user'') ''access_token'' t"
    unfolding with_token_def by (rule prop_of_with_prop_same [OF au])
  from assms show "token_of (with_token d t) = t"
    unfolding token_of_def a by (rule prop_of_with_prop_same)
  show "prop_of (with_token d t) k = prop_of d k" if "k \<noteq> ''authed_user''"
    unfolding with_token_def using that by (rule prop_of_with_prop_other)
  show "prop_of (prop_of (with_token d t) ''authed_user'') k = prop_of (prop_of d ''authed_user'') k"
    if "k \<noteq> ''access_token''"
    unfolding a using that by (rule prop_of_with_prop_other)
  from assms have "\<exists>kvs. prop_of d ''authed_user'' = JObj kvs"
    unfolding token_of_def by (rule truthy_prop_of_JObj)
  then show "truthy (prop_of (with_token d t) ''authed_user'')"
    unfolding a by (auto simp add: with_prop_def)
qed

subsection \<open>The callback of the server, case by case\<close>

lemma callback_provider_error:
  assumes "truthy (query_value (query req) ''error'')"
    and "toString rt (query_value (query req) ''error'') = Inr text"
  shows "fst (auth_callback rt srv fetch g req) = Send 200 (getErrorPage (''OAuth Error: '' @ text))"
    and "fst (snd (auth_callback rt srv fetch g req)) = srv"
    and "fetches (snd (snd (auth_callback rt srv fetch g req))) = []"
  using assms by (simp_all add: auth_callback_def Let_def)

lemma callback_provider_error_no_text:
  assumes "truthy (query_value (query req) ''error'')"
    and "toString rt (query_value (query req) ''error'') = Inl e"
  shows "fst (auth_callback rt srv fetch g req) =
           Send 200 (getErrorPage (''Token exchange failed: '' @ message e))"
    and "fst (snd (auth_callback rt srv fetch g req)) = srv"
    and "fetches (snd (snd (auth_callback rt srv fetch g req))) = []"
  using assms by (simp_all add: auth_callback_def Let_def case_prod_beta)

lemma callback_missing:
  assumes "\<not> truthy (query_value (query req) ''error'')"
    and "\<not> truthy (query_value (query req) ''code'') \<or> \<not> truthy (query_value (query req) ''state'')"
  shows "fst (auth_callback rt srv fetch g req) = Send 200 (getErrorPage ''Missing authorization code or state'')"
    and "fst (snd (auth_callback rt srv fetch g req)) = srv"
    and "fetches (snd (snd (auth_callback rt srv fetch g req))) = []"
  using assms by (auto simp add: auth_callback_def Let_def)

lemma callback_invalid_state:
  assumes "\<not> truthy (query_value (query req) ''error'')"
    and "truthy (query_value (query req) ''code'')" and "truthy (query_value (query req) ''state'')"
    and "Map_get_v (pendingStates srv) (query_value (query req) ''state'') = None"
  shows "fst (auth_callback rt srv fetch g req) = Send 200 (getErrorPage ''Invalid or expired state parameter'')"
    and "fst (snd (auth_callback rt srv fetch g req)) = srv"
    and "fetches (snd (snd (auth_callback rt srv fetch g req))) = []"
  using assms by (simp_all add: auth_callback_def Let_def)

lemma callback_exchange_failed:
  assumes "\<not> truthy (query_value (query req) ''error'')"
    and "truthy (query_value (query req) ''code'')" and "truthy (query_value (query req) ''state'')"
    and "Map_get_v (pendingStates srv) (query_value (query req) ''state'') = Some sd"
    and "fst (exchangeCodeForToken rt srv fetch (query_value (query req) ''code'')) = Inl e"
  shows "fst (auth_callback rt srv fetch g req) =
           Send 200 (getErrorPage (''Token exchange failed: '' @ message e))"
    and "fst (snd (auth_callback rt srv fetch g req)) = srv"
    and "snd (snd (auth_callback rt srv fetch g req)) =
           [Console LOG [LStr ''OAuth callback received''],
            Console LOG [LStr ''Query params:'', LVal (JObj (query req))],
            Console LOG [LStr ''Request URL:'', LStr (req_url req)],
            Console LOG [LStr ''Request headers:'', LVal (JObj (req_headers req))],
            Console LOG [LStr ''Checking for OAuth errors...''],
            Console LOG [LStr ''Checking for code and state...''],
            Console LOG [LStr ''Validating state...''],
            Console LOG [LStr ''State validated:'', LState sd],
            Console LOG [LStr ''Starting token exchange...'']]
           @ snd (exchangeCodeForToken rt srv fetch (query_value (query req) ''code''))
           @ [Console ERROR [LStr ''Token exchange failed:'', LErr e]]
           @ snd (callback_catch e)"
  using assms by (simp_all add: auth_callback_def Let_def case_prod_beta)

lemma callback_invalid_token:
  assumes "\<not> truthy (query_value (query req) ''error'')"
    and "truthy (query_value (query req) ''code'')" and "truthy (query_value (query req) ''state'')"
    and "Map_get_v (pendingStates srv) (query_value (query req) ''state'') = Some sd"
    and "fst (exchangeCodeForToken rt srv fetch (query_value (query req) ''code'')) = Inr d"
    and "\<not> truthy (token_of d)"
  shows "fst (auth_callback rt srv fetch g req) =
           Send 200 (getErrorPage (''Token exchange failed: '' @ ''Invalid token data received from Slack''))"
    and "fst (snd (auth_callback rt srv fetch g req)) = srv"
    and "fetches (snd (snd (auth_callback rt srv fetch g req))) =
           fetches (snd (exchangeCodeForToken rt srv fetch (query_value (query req) ''code'')))"
  using assms token_check_iff [of d]
  by (simp_all add: auth_callback_def Let_def case_prod_beta)

lemma callback_page_refused:
  assumes "\<not> truthy (query_value (query req) ''error'')"
    and "truthy (query_value (query req) ''code'')" and "truthy (query_value (query req) ''state'')"
    and "Map_get_v (pendingStates srv) (query_value (query req) ''state'') = Some sd"
    and "fst (exchangeCodeForToken rt srv fetch (query_value (query req) ''code'')) = Inr d"
    and "truthy (token_of d)"
    and "fst (getSuccessPageWithToken rt d sd g) = Inl pe"
  shows "fst (auth_callback rt srv fetch g req) =
           Send 500 ''Success! Token generated, but error displaying page. Check server logs.''"
    and "fst (snd (auth_callback rt srv fetch g req)) =
           srv\<lparr>pendingStates := Map_delete_v (pendingStates srv) (query_value (query req) ''state'')\<rparr>"
    and "snd (snd (auth_callback rt srv fetch g req)) =
           validated_events rt srv fetch req sd
           @ snd (getSuccessPageWithToken rt d sd g)
           @ [Console ERROR [LStr ''Error generating success page:'', LErr pe],
              Console ERROR [LStr ''Page error stack:'', LStack pe]]"
  using assms token_check_iff [of d]
  by (simp_all add: auth_callback_def Let_def case_prod_beta validated_events_def)

lemma callback_success:
  assumes "\<not> truthy (query_value (query req) ''error'')"
    and "truthy (query_value (query req) ''code'')" and "truthy (query_value (query req) ''state'')"
    and "Map_get_v (pendingStates srv) (query_value (query req) ''state'') = Some sd"
    and "fst (exchangeCodeForToken rt srv fetch (query_value (query req) ''code'')) = Inr d"
    and "truthy (token_of d)"
    and "fst (getSuccessPageWithToken rt d sd g) = Inr page"
  shows "fst (auth_callback rt srv fetch g req) = Send 200 page"
    and "fst (snd (auth_callback rt srv fetch g req)) =
           srv\<lparr>pendingStates := Map_delete_v (pendingStates srv) (query_value (query req) ''state'')\<rparr>"
    and "snd (snd (auth_callback rt srv fetch g req)) =
           validated_events rt srv fetch req sd
           @ snd (getSuccessPageWithToken rt d sd g)
           @ [Console LOG [LStr ''Success page generated''],
              Console LOG [LStr ''Sending response to user...''],
              Console LOG [LStr ''Token displayed to user'']]
           @ (case generated_line rt d sd of
                Inr line \<Rightarrow> [Console LOG [LStr line]]
              | Inl e \<Rightarrow> after_send rt e)"
  using assms token_check_iff [of d]
  by (simp_all add: auth_callback_def Let_def case_prod_beta validated_events_def)

lemma fetches_validated_events [simp]:
  "fetches (validated_events rt srv fetch req sd) =
     fetches (snd (exchangeCodeForToken rt srv fetch (query_value (query req) ''code'')))"
  by (simp add: validated_events_def)

subsection \<open>The pages of a successful callback\<close>

lemma sublist_skip: "sublist x r \<Longrightarrow> sublist x (a @ r)"
  by (metis sublist_append_leftI sublist_order.order_trans)

lemma sublist_success_template: "sublist tok (success_template tok name uid team perm g)"
  unfolding success_template_def by (fast intro: sublist_skip sublist_append_rightI)

lemma sublist_fallback_template: "sublist tok (fallback_template tok)"
  unfolding fallback_template_def by (fast intro: sublist_skip sublist_append_rightI)

lemma styled_page_Inr:
  assumes "styled_page rt userToken userName userId teamName scopes g = Inr page"
    and "toString rt userToken = Inr tok"
  shows "sublist tok page"
  using assms sublist_success_template
  by (auto simp add: styled_page_def split: sum.splits jsval.splits)

lemma fallback_page_Inr:
  assumes "toString rt (js_or (token_of d) (JStr ''Error displaying token'')) = Inr tok"
  shows "\<exists>page. fallback_page rt d = Inr page \<and> sublist tok page"
  using assms sublist_fallback_template
  by (simp add: fallback_page_def token_of_def)

lemma fallback_page_Inl:
  assumes "toString rt (js_or (token_of d) (JStr ''Error displaying token'')) = Inl e"
  shows "fallback_page rt d = Inl e"
  using assms by (simp add: fallback_page_def token_of_def)

lemma success_page_try_token:
  "success_page_try rt d sd g =
     styled_page rt (js_or (token_of d) (JStr ''No token generated''))
       (js_or (prop_of (prop_of d ''authed_user'') ''name'')
          (js_or (JStr (user_name sd)) (JStr ''Unknown User'')))
       (js_or (prop_of (prop_of d ''authed_user'') ''id'') (JStr ''Unknown ID''))
       (js_or (prop_of (prop_of d ''team'') ''name'') (JStr ''Unknown Team''))
       (js_or (prop_of (prop_of d ''authed_user'') ''scope'') (JStr ''No scopes'')) g"
  by (simp add: success_page_try_def Let_def token_of_def)

text \<open>When the token has a text, \<open>getSuccessPageWithToken\<close> returns a page, and the text
  stands in it.\<close>

lemma success_page_shows_token:
  assumes "truthy (token_of d)" and "toString rt (token_of d) = Inr tok"
  shows "\<exists>page. fst (getSuccessPageWithToken rt d sd g) = Inr page \<and> sublist tok page"
proof (cases "success_page_try rt d sd g")
  case (Inl e)
  from assms have "toString rt (js_or (token_of d) (JStr ''Error displaying token'')) = Inr tok"
    by (simp add: js_or_def)
  from fallback_page_Inr [OF this] Inl show ?thesis
    by (simp add: getSuccessPageWithToken_def)
next
  case (Inr page)
  from assms have "toString rt (js_or (token_of d) (JStr ''No token generated'')) = Inr tok"
    by (simp add: js_or_def)
  from styled_page_Inr [OF Inr [unfolded success_page_try_token] this] Inr show ?thesis
    by (simp add: getSuccessPageWithToken_def)
qed

text \<open>When the token has no text, both templates throw.\<close>

lemma success_page_throws:
  assumes "truthy (token_of d)" and "toString rt (token_of d) = Inl e"
  shows "success_page_try rt d sd g = Inl e"
    and "fst (getSuccessPageWithToken rt d sd g) = Inl e"
proof -
  from assms have a: "toString rt (js_or (token_of d) (JStr ''No token generated'')) = Inl e"
    and b: "toString rt (js_or (token_of d) (JStr ''Error displaying token'')) = Inl e"
    by (simp_all add: js_or_def)
  from a show c: "success_page_try rt d sd g = Inl e"
    by (simp add: success_page_try_token styled_page_def)
  from c fallback_page_Inl [OF b] show "fst (getSuccessPageWithToken rt d sd g) = Inl e"
    by (simp add: getSuccessPageWithToken_def)
qed

lemma success_page_events:
  "snd (getSuccessPageWithToken rt d sd g) =
     [Console LOG [LStr ''Generating success page with token...''],
      Console LOG [LStr ''Success page data prepared (token hidden in logs)'']]
     @ (case success_page_try rt d sd g of
          Inr page \<Rightarrow> []
        | Inl x \<Rightarrow> [Console ERROR [LStr ''Error generating success page:'', LErr x]])"
  by (cases "success_page_try rt d sd g") (simp_all add: getSuccessPageWithToken_def)

text \<open>
  Whether the styled page is built, and the error thrown when it is not, do not depend on
  a token that has a text.
\<close>

lemma styled_page_outcome:
  assumes "toString rt t1 = Inr s1" and "toString rt t2 = Inr s2"
  shows "(case styled_page rt t2 a b c sc g of Inr page \<Rightarrow> None | Inl x \<Rightarrow> Some x) =
         (case styled_page rt t1 a b c sc g of Inr page \<Rightarrow> None | Inl x \<Rightarrow> Some x)"
  using assms by (simp add: styled_page_def split: sum.splits jsval.splits)

subsection \<open>The example runs\<close>

lemma demo_started_eq:
  "demo_started =
     \<lparr>port = ''3000'', clientId = Some ''cid'', clientSecret = Some ''sec'',
      redirectUri = ''https://relay.example/auth/callback'',
      pendingStates = [(''5f1c'', \<lparr>user_id = ''u1'', user_name = [], timestamp = 1000\<rparr>)]\<rparr>"
  by (simp add: demo_started_def auth_start_def UserTokenGenerator_def demo_env_def Let_def
      or_else_def validateInput_def trim_def is_space_def)

lemma demo_started_fields:
  "clientId demo_started = Some ''cid''"
  "clientSecret demo_started = Some ''sec''"
  "redirectUri demo_started = ''https://relay.example/auth/callback''"
  "pendingStates demo_started = [(''5f1c'', \<lparr>user_id = ''u1'', user_name = [], timestamp = 1000\<rparr>)]"
  by (simp_all add: demo_started_eq)

lemma demo_started_state:
  "Map_get (pendingStates demo_started) ''5f1c'' =
     Some \<lparr>user_id = ''u1'', user_name = [], timestamp = 1000\<rparr>"
  by (simp add: demo_started_fields Map_get_def)

lemma handler_started_eq:
  "handler_started = [(''5f1c'', \<lparr>user_id = ''u1'', user_name = [], timestamp = 1000\<rparr>)]"
  by (simp add: handler_started_def handleAuthStart_def demo_env_def Let_def or_else_def qparam_def)

lemma demo_callback_params:
  "\<not> truthy (query_value (query demo_callback) ''error'')"
  "query_value (query demo_callback) ''code'' = JStr ''abc''"
  "query_value (query demo_callback) ''state'' = JStr ''5f1c''"
  "truthy (query_value (query demo_callback) ''code'')"
  "truthy (query_value (query demo_callback) ''state'')"
  "Map_get_v (pendingStates demo_started) (query_value (query demo_callback) ''state'') =
     Some \<lparr>user_id = ''u1'', user_name = [], timestamp = 1000\<rparr>"
  "toString rt (query_value (query demo_callback) ''code'') = Inr ''abc''"
  by (simp_all add: demo_callback_def demo_started_state)

lemma demo_exchange_refused:
  "fst (exchangeCodeForToken demo_runtime demo_started fetch_invalid_code (JStr ''abc'')) =
     Inl (JsError ''Error'' ''OAuth exchange failed: invalid_code'')"
  using exchange_not_ok [where fetch = fetch_invalid_code and srv = demo_started
      and code = "JStr ''abc''" and rt = demo_runtime and cd = "''abc''"
      and r = "\<lparr>status = 200, statusText = ''OK'', body_text = ''{ok:false,error:invalid_code}'',
        body_json = Inr (JObj [(''ok'', JBool False), (''error'', JStr ''invalid_code'')])\<rparr>"
      and data = "JObj [(''ok'', JBool False), (''error'', JStr ''invalid_code'')]"]
  by (simp add: fetch_invalid_code_def response_ok_def nullish_def prop_of_def)

lemma demo_exchange_granted:
  "fst (exchangeCodeForToken demo_runtime demo_started fetch_token (JStr ''abc'')) = Inr demo_data"
  unfolding exchange_Inr_iff
  by (simp add: fetch_token_def response_ok_def) (simp add: demo_data_def prop_of_def)

lemma demo_data_token: "token_of demo_data = JStr ''xoxp-test''"
  by (simp add: demo_data_def token_of_def prop_of_def)

lemma getErrorPage_inject [simp]: "getErrorPage a = getErrorPage b \<longleftrightarrow> a = b"
  by (simp add: getErrorPage_def)

lemma replay_first_eq:
  "fst replay_first =
     Send 200 (getErrorPage ''Token exchange failed: OAuth exchange failed: invalid_code'')"
  "fst (snd replay_first) = demo_started"
proof -
  have ex: "fst (exchangeCodeForToken demo_runtime demo_started fetch_invalid_code
                  (query_value (query demo_callback) ''code'')) =
              Inl (JsError ''Error'' ''OAuth exchange failed: invalid_code'')"
    by (simp add: demo_callback_params demo_exchange_refused)
  from callback_exchange_failed(1) [OF demo_callback_params(1) demo_callback_params(4)
      demo_callback_params(5) demo_callback_params(6) ex, of "''t1''"]
  show "fst replay_first =
     Send 200 (getErrorPage ''Token exchange failed: OAuth exchange failed: invalid_code'')"
    by (simp add: replay_first_def)
  from callback_exchange_failed(2) [OF demo_callback_params(1) demo_callback_params(4)
      demo_callback_params(5) demo_callback_params(6) ex, of "''t1''"]
  show "fst (snd replay_first) = demo_started"
    by (simp add: replay_first_def)
qed

section \<open>The claims\<close>

text \<open>
  The properties that follow are about the server, the implementation that runs. What
  the text of the serverless module says is compared with it in places; a request to
  that module is the subject of C10.
\<close>

subsection \<open>The order of the checks of a callback\<close>

text \<open>
  C2, as stated, fails on a callback whose \<open>error\<close> parameter is present and empty
  (\<open>/auth/callback?error=&code=abc&state=5f1c\<close>, the state being in the store): the
  route tests \<open>if (error)\<close>, which an empty string does not pass, so the reply is not
  the provider's failure and the token exchange is issued.
\<close>

theorem empty_error_parameter_counterexample:
  "map_of (query empty_error_callback) ''error'' = Some (JStr [])
   \<and> fetches (snd (snd (auth_callback demo_runtime demo_started fetch_invalid_code ''t''
                          empty_error_callback))) =
       [exchange_request (Some ''cid'') (Some ''sec'') ''abc'' ''https://relay.example/auth/callback'']
   \<and> fst (auth_callback demo_runtime demo_started fetch_invalid_code ''t'' empty_error_callback) =
       Send 200 (getErrorPage ''Token exchange failed: OAuth exchange failed: invalid_code'')"
proof -
  have q: "\<not> truthy (query_value (query empty_error_callback) ''error'')"
    "truthy (query_value (query empty_error_callback) ''code'')"
    "truthy (query_value (query empty_error_callback) ''state'')"
    "Map_get_v (pendingStates demo_started) (query_value (query empty_error_callback) ''state'') =
       Some \<lparr>user_id = ''u1'', user_name = [], timestamp = 1000\<rparr>"
    "query_value (query empty_error_callback) ''code'' = JStr ''abc''"
    by (simp_all add: empty_error_callback_def demo_started_state)
  have ex: "fst (exchangeCodeForToken demo_runtime demo_started fetch_invalid_code
                  (query_value (query empty_error_callback) ''code'')) =
              Inl (JsError ''Error'' ''OAuth exchange failed: invalid_code'')"
    by (simp add: q(5) demo_exchange_refused)
  note run = callback_exchange_failed [OF q(1) q(2) q(3) q(4) ex, of "''t''"]
  have a: "map_of (query empty_error_callback) ''error'' = Some (JStr [])"
    by (simp add: empty_error_callback_def)
  have b: "fetches (snd (snd (auth_callback demo_runtime demo_started fetch_invalid_code ''t''
                          empty_error_callback))) =
       [exchange_request (Some ''cid'') (Some ''sec'') ''abc'' ''https://relay.example/auth/callback'']"
    unfolding run(3) by (simp add: exchange_fetches q(5) demo_started_fields)
  from a b run(1) show ?thesis by simp
qed

text \<open>
  C2, amended. The callback of the server validates in a fixed order, and each failure
  ends the request: when the \<open>error\<close> parameter has a value that is not empty, the
  reply is the provider's failure with the text of the value (when the value has no text,
  the page of a failed exchange with the error of the conversion); otherwise, when
  \<open>code\<close> or \<open>state\<close> is missing or empty, it is the malformed-callback error;
  otherwise, when the state is not a key of the store (a \<open>state\<close> that is no single
  string, such as a parameter given twice, is none), it is the invalid-state error. In
  each of the three cases no outbound call is made and the store is left as it was.
\<close>

theorem callback_validation_order:
  "(truthy (query_value (query req) ''error'') \<longrightarrow>
      fst (auth_callback rt srv fetch g req) =
        (case toString rt (query_value (query req) ''error'') of
           Inr text \<Rightarrow> Send 200 (getErrorPage (''OAuth Error: '' @ text))
         | Inl e \<Rightarrow> Send 200 (getErrorPage (''Token exchange failed: '' @ message e)))
      \<and> fst (snd (auth_callback rt srv fetch g req)) = srv
      \<and> fetches (snd (snd (auth_callback rt srv fetch g req))) = [])
   \<and> (\<not> truthy (query_value (query req) ''error'')
        \<and> (\<not> truthy (query_value (query req) ''code'') \<or> \<not> truthy (query_value (query req) ''state'')) \<longrightarrow>
      fst (auth_callback rt srv fetch g req) = Send 200 (getErrorPage ''Missing authorization code or state'')
      \<and> fst (snd (auth_callback rt srv fetch g req)) = srv
      \<and> fetches (snd (snd (auth_callback rt srv fetch g req))) = [])
   \<and> (\<not> truthy (query_value (query req) ''error'')
        \<and> truthy (query_value (query req) ''code'') \<and> truthy (query_value (query req) ''state'')
        \<and> (\<forall>st. query_value (query req) ''state'' = JStr st \<longrightarrow>
                  Map_get (pendingStates srv) st = None) \<longrightarrow>
      fst (auth_callback rt srv fetch g req) = Send 200 (getErrorPage ''Invalid or expired state parameter'')
      \<and> fst (snd (auth_callback rt srv fetch g req)) = srv
      \<and> fetches (snd (snd (auth_callback rt srv fetch g req))) = [])"
proof -
  have first: "fst (auth_callback rt srv fetch g req) =
        (case toString rt (query_value (query req) ''error'') of
           Inr text \<Rightarrow> Send 200 (getErrorPage (''OAuth Error: '' @ text))
         | Inl e \<Rightarrow> Send 200 (getErrorPage (''Token exchange failed: '' @ message e)))
      \<and> fst (snd (auth_callback rt srv fetch g req)) = srv
      \<and> fetches (snd (snd (auth_callback rt srv fetch g req))) = []"
    if "truthy (query_value (query req) ''error'')"
  proof (cases "toString rt (query_value (query req) ''error'')")
    case (Inl e)
    from callback_provider_error_no_text [OF that Inl, of srv fetch g] Inl show ?thesis by simp
  next
    case (Inr s)
    from callback_provider_error [OF that Inr, of srv fetch g] Inr show ?thesis by simp
  qed
  have none: "Map_get_v (pendingStates srv) (query_value (query req) ''state'') = None"
    if "\<forall>st. query_value (query req) ''state'' = JStr st \<longrightarrow> Map_get (pendingStates srv) st = None"
  proof (cases "Map_get_v (pendingStates srv) (query_value (query req) ''state'')")
    case None
    then show ?thesis .
  next
    case (Some sd)
    with that show ?thesis by (auto simp: Map_get_v_Some)
  qed
  have third: "fst (auth_callback rt srv fetch g req) =
                 Send 200 (getErrorPage ''Invalid or expired state parameter'')
               \<and> fst (snd (auth_callback rt srv fetch g req)) = srv
               \<and> fetches (snd (snd (auth_callback rt srv fetch g req))) = []"
    if "\<not> truthy (query_value (query req) ''error'')"
      and "truthy (query_value (query req) ''code'')" and "truthy (query_value (query req) ''state'')"
      and "\<forall>st. query_value (query req) ''state'' = JStr st \<longrightarrow>
                Map_get (pendingStates srv) st = None"
    using callback_invalid_state [OF that(1) that(2) that(3) none [OF that(4)], of rt fetch g]
    by simp
  from first callback_missing [of req rt srv fetch g] third
  show ?thesis by blast
qed

theorem callback_validation_order_witness:
  "fst (auth_callback demo_runtime demo_started fetch_token ''t''
          \<lparr>query = [(''error'', JStr ''access_denied''), (''code'', JStr ''abc''), (''state'', JStr ''5f1c'')],
           req_url = ''/auth/callback?error=access_denied&code=abc&state=5f1c'', req_headers = []\<rparr>) =
     Send 200 (getErrorPage ''OAuth Error: access_denied'')
   \<and> fetches (snd (snd (auth_callback demo_runtime demo_started fetch_token ''t''
          \<lparr>query = [(''error'', JStr ''access_denied''), (''code'', JStr ''abc''), (''state'', JStr ''5f1c'')],
           req_url = ''/auth/callback?error=access_denied&code=abc&state=5f1c'', req_headers = []\<rparr>))) = []
   \<and> fst (auth_callback demo_runtime demo_started fetch_token ''t''
          \<lparr>query = [(''code'', JStr ''abc'')], req_url = ''/auth/callback?code=abc'', req_headers = []\<rparr>) =
     Send 200 (getErrorPage ''Missing authorization code or state'')
   \<and> fetches (snd (snd (auth_callback demo_runtime demo_started fetch_token ''t''
          \<lparr>query = [(''code'', JStr ''abc'')], req_url = ''/auth/callback?code=abc'', req_headers = []\<rparr>))) = []
   \<and> fst (auth_callback demo_runtime demo_started fetch_token ''t''
          \<lparr>query = [(''code'', JStr ''abc''), (''state'', JStr ''deadbeef'')],
           req_url = ''/auth/callback?code=abc&state=deadbeef'', req_headers = []\<rparr>) =
     Send 200 (getErrorPage ''Invalid or expired state parameter'')
   \<and> fetches (snd (snd (auth_callback demo_runtime demo_started fetch_token ''t''
          \<lparr>query = [(''code'', JStr ''abc''), (''state'', JStr ''deadbeef'')],
           req_url = ''/auth/callback?code=abc&state=deadbeef'', req_headers = []\<rparr>))) = []
   \<and> fst (auth_callback demo_runtime demo_started fetch_token ''t'' twice_state_callback) =
     Send 200 (getErrorPage ''Invalid or expired state parameter'')
   \<and> fetches (snd (snd (auth_callback demo_runtime demo_started fetch_token ''t''
                          twice_state_callback))) = []
   \<and> fst (snd (auth_callback demo_runtime demo_started fetch_token ''t'' twice_state_callback)) =
       demo_started"
proof -
  let ?denied = "\<lparr>query = [(''error'', JStr ''access_denied''), (''code'', JStr ''abc''), (''state'', JStr ''5f1c'')],
           req_url = ''/auth/callback?error=access_denied&code=abc&state=5f1c'', req_headers = []\<rparr>"
  let ?nostate = "\<lparr>query = [(''code'', JStr ''abc'')], req_url = ''/auth/callback?code=abc'',
           req_headers = []\<rparr>"
  let ?unknown = "\<lparr>query = [(''code'', JStr ''abc''), (''state'', JStr ''deadbeef'')],
           req_url = ''/auth/callback?code=abc&state=deadbeef'', req_headers = []\<rparr>"
  have a: "fst (auth_callback demo_runtime demo_started fetch_token ''t'' ?denied) =
             Send 200 (getErrorPage ''OAuth Error: access_denied'')
           \<and> fetches (snd (snd (auth_callback demo_runtime demo_started fetch_token ''t'' ?denied))) = []"
    using callback_validation_order [of ?denied demo_runtime demo_started fetch_token "''t''"]
    by simp
  have b: "fst (auth_callback demo_runtime demo_started fetch_token ''t'' ?nostate) =
             Send 200 (getErrorPage ''Missing authorization code or state'')
           \<and> fetches (snd (snd (auth_callback demo_runtime demo_started fetch_token ''t'' ?nostate))) = []"
    using callback_validation_order [of ?nostate demo_runtime demo_started fetch_token "''t''"]
    by simp
  have c: "fst (auth_callback demo_runtime demo_started fetch_token ''t'' ?unknown) =
             Send 200 (getErrorPage ''Invalid or expired state parameter'')
           \<and> fetches (snd (snd (auth_callback demo_runtime demo_started fetch_token ''t'' ?unknown))) = []"
    using callback_validation_order [of ?unknown demo_runtime demo_started fetch_token "''t''"]
    by (simp add: demo_started_fields Map_get_def)
  have d: "fst (auth_callback demo_runtime demo_started fetch_token ''t'' twice_state_callback) =
             Send 200 (getErrorPage ''Invalid or expired state parameter'')
           \<and> fetches (snd (snd (auth_callback demo_runtime demo_started fetch_token ''t''
                                  twice_state_callback))) = []
           \<and> fst (snd (auth_callback demo_runtime demo_started fetch_token ''t'' twice_state_callback)) =
               demo_started"
    using callback_validation_order [of twice_state_callback demo_runtime demo_started fetch_token "''t''"]
    by (simp add: twice_state_callback_def)
  from a b c d show ?thesis by simp
qed

subsection \<open>A callback whose state is in the store\<close>

lemma callback_valid_state:
  assumes "\<not> truthy (query_value (query req) ''error'')"
    and "truthy (query_value (query req) ''code'')"
    and "query_value (query req) ''state'' = JStr st" and "st \<noteq> []"
    and "Map_get (pendingStates srv) st = Some sd"
  shows "fetches (snd (snd (auth_callback rt srv fetch g req))) =
           (case toString rt (query_value (query req) ''code'') of
              Inl e \<Rightarrow> []
            | Inr cd \<Rightarrow> [exchange_request (clientId srv) (clientSecret srv) cd (redirectUri srv)])"
    and "fst (snd (auth_callback rt srv fetch g req)) =
           (case fst (exchangeCodeForToken rt srv fetch (query_value (query req) ''code'')) of
              Inl x \<Rightarrow> srv
            | Inr d \<Rightarrow> if truthy (token_of d)
                       then srv\<lparr>pendingStates := Map_delete (pendingStates srv) st\<rparr> else srv)"
proof -
  have gs: "truthy (query_value (query req) ''state'')" using assms(3,4) by simp
  have ms: "Map_get_v (pendingStates srv) (query_value (query req) ''state'') = Some sd"
    using assms(3,5) by simp
  let ?x = "exchangeCodeForToken rt srv fetch (query_value (query req) ''code'')"
  have "fetches (snd (snd (auth_callback rt srv fetch g req))) = fetches (snd ?x)
        \<and> fst (snd (auth_callback rt srv fetch g req)) =
           (case fst ?x of
              Inl x \<Rightarrow> srv
            | Inr d \<Rightarrow> if truthy (token_of d)
                       then srv\<lparr>pendingStates := Map_delete (pendingStates srv) st\<rparr> else srv)"
  proof (cases "fst ?x")
    case (Inl e)
    from callback_exchange_failed(2,3) [OF assms(1) assms(2) gs ms Inl, of g] Inl
    show ?thesis by simp
  next
    case (Inr d)
    show ?thesis
    proof (cases "truthy (token_of d)")
      case False
      from callback_invalid_token(2,3) [OF assms(1) assms(2) gs ms Inr False, of g] Inr False
      show ?thesis by simp
    next
      case True
      show ?thesis
      proof (cases "fst (getSuccessPageWithToken rt d sd g)")
        case (Inl pe)
        from callback_page_refused(2,3) [OF assms(1) assms(2) gs ms Inr True Inl] Inr True
        show ?thesis by (simp add: assms(3))
      next
        case page: (Inr page)
        from callback_success(2,3) [OF assms(1) assms(2) gs ms Inr True page] Inr True
        show ?thesis by (simp add: assms(3) split: sum.splits)
      qed
    qed
  qed
  then show "fetches (snd (snd (auth_callback rt srv fetch g req))) =
           (case toString rt (query_value (query req) ''code'') of
              Inl e \<Rightarrow> []
            | Inr cd \<Rightarrow> [exchange_request (clientId srv) (clientSecret srv) cd (redirectUri srv)])"
    and "fst (snd (auth_callback rt srv fetch g req)) =
           (case fst ?x of
              Inl x \<Rightarrow> srv
            | Inr d \<Rightarrow> if truthy (token_of d)
                       then srv\<lparr>pendingStates := Map_delete (pendingStates srv) st\<rparr> else srv)"
    by (simp_all add: exchange_fetches)
qed

text \<open>
  C1, as stated, fails. A flow is started (state \<open>5f1c\<close>), the callback arrives with
  \<open>code=abc\<close> and that state, and the provider refuses the code (\<open>invalid_code\<close>). The
  entry is still in the store after the failure. The same callback arrives again: the
  reply is once more the exchange failure, not the invalid-state error, and a second
  exchange call is issued.
\<close>

theorem replay_after_failed_exchange_counterexample:
  "fst replay_first =
     Send 200 (getErrorPage ''Token exchange failed: OAuth exchange failed: invalid_code'')
   \<and> fst (snd replay_first) = demo_started
   \<and> fst replay_second =
     Send 200 (getErrorPage ''Token exchange failed: OAuth exchange failed: invalid_code'')
   \<and> fst replay_second \<noteq> Send 200 (getErrorPage ''Invalid or expired state parameter'')
   \<and> fetches (snd (snd replay_second)) =
       [exchange_request (Some ''cid'') (Some ''sec'') ''abc'' ''https://relay.example/auth/callback'']"
proof -
  have ex: "fst (exchangeCodeForToken demo_runtime demo_started fetch_invalid_code
                  (query_value (query demo_callback) ''code'')) =
              Inl (JsError ''Error'' ''OAuth exchange failed: invalid_code'')"
    by (simp add: demo_callback_params demo_exchange_refused)
  have second: "replay_second =
                  auth_callback demo_runtime demo_started fetch_invalid_code ''t2'' demo_callback"
    by (simp add: replay_second_def replay_first_eq)
  note run = callback_exchange_failed [OF demo_callback_params(1) demo_callback_params(4)
      demo_callback_params(5) demo_callback_params(6) ex, of "''t2''"]
  have r2: "fst replay_second =
     Send 200 (getErrorPage ''Token exchange failed: OAuth exchange failed: invalid_code'')"
    using run(1) by (simp add: second)
  have f2: "fetches (snd (snd replay_second)) =
       [exchange_request (Some ''cid'') (Some ''sec'') ''abc'' ''https://relay.example/auth/callback'']"
    unfolding second run(3)
    by (simp add: exchange_fetches demo_callback_params demo_started_fields)
  from replay_first_eq r2 f2 show ?thesis by simp
qed

text \<open>
  C1, amended. For a callback of the server whose \<open>state\<close> is a key of the store, the
  route reads the entry without deleting it, issues the one exchange call (none when the
  code has no text to put into the request, and the exchange fails at once), and deletes
  the entry only after the exchange has succeeded and its answer carries an access token.
  After a failed exchange the store is as it was, so a second callback with the same
  state goes to the exchange again instead of finding the state gone.
\<close>

theorem callback_deletes_state_only_after_success:
  assumes "\<not> truthy (query_value (query req) ''error'')"
    and "truthy (query_value (query req) ''code'')"
    and "query_value (query req) ''state'' = JStr st" and "st \<noteq> []"
    and "Map_get (pendingStates srv) st = Some sd"
  shows
    "fetches (snd (snd (auth_callback rt srv fetch g req))) =
       (case toString rt (query_value (query req) ''code'') of
          Inl e \<Rightarrow> []
        | Inr cd \<Rightarrow> [exchange_request (clientId srv) (clientSecret srv) cd (redirectUri srv)])
     \<and> fst (snd (auth_callback rt srv fetch g req)) =
         (case fst (exchangeCodeForToken rt srv fetch (query_value (query req) ''code'')) of
            Inl x \<Rightarrow> srv
          | Inr d \<Rightarrow> if truthy (token_of d)
                     then srv\<lparr>pendingStates := Map_delete (pendingStates srv) st\<rparr> else srv)
     \<and> ((\<exists>x. fst (exchangeCodeForToken rt srv fetch (query_value (query req) ''code'')) = Inl x) \<longrightarrow>
          fst (snd (auth_callback rt srv fetch g req)) = srv
          \<and> fetches (snd (snd (auth_callback rt (fst (snd (auth_callback rt srv fetch g req)))
                                  fetch' g' req))) =
              fetches (snd (snd (auth_callback rt srv fetch g req))))"
proof -
  note run = callback_valid_state [OF assms]
  have replay: "fst (snd (auth_callback rt srv fetch g req)) = srv
          \<and> fetches (snd (snd (auth_callback rt (fst (snd (auth_callback rt srv fetch g req)))
                                  fetch' g' req))) =
              fetches (snd (snd (auth_callback rt srv fetch g req)))"
    if "fst (exchangeCodeForToken rt srv fetch (query_value (query req) ''code'')) = Inl x" for x
  proof -
    from that run(2) [of rt fetch g] have "fst (snd (auth_callback rt srv fetch g req)) = srv" by simp
    with run(1) [of rt fetch' g'] run(1) [of rt fetch g] show ?thesis by simp
  qed
  from run(1) [of rt fetch g] run(2) [of rt fetch g] replay
  show ?thesis by blast
qed

theorem callback_deletes_state_only_after_success_witness:
  "fst (snd (auth_callback demo_runtime demo_started fetch_invalid_code ''t1'' demo_callback)) =
     demo_started
   \<and> fetches (snd (snd (auth_callback demo_runtime
         (fst (snd (auth_callback demo_runtime demo_started fetch_invalid_code ''t1'' demo_callback)))
         fetch_invalid_code ''t2'' demo_callback))) =
       [exchange_request (Some ''cid'') (Some ''sec'') ''abc'' ''https://relay.example/auth/callback'']
   \<and> pendingStates (fst (snd (auth_callback demo_runtime demo_started fetch_token ''t1''
                                 demo_callback))) = []"
proof -
  have ne: "''5f1c'' \<noteq> []" by simp
  note refused = callback_deletes_state_only_after_success
    [where req = demo_callback and srv = demo_started and rt = demo_runtime
       and fetch = fetch_invalid_code and fetch' = fetch_invalid_code and g = "''t1''" and g' = "''t2''",
     OF demo_callback_params(1) demo_callback_params(4) demo_callback_params(3) ne demo_started_state]
  note granted = callback_deletes_state_only_after_success
    [where req = demo_callback and srv = demo_started and rt = demo_runtime
       and fetch = fetch_token and fetch' = fetch_token and g = "''t1''" and g' = "''t2''",
     OF demo_callback_params(1) demo_callback_params(4) demo_callback_params(3) ne demo_started_state]
  have f1: "fetches (snd (snd (auth_callback demo_runtime demo_started fetch_invalid_code ''t1''
                                 demo_callback))) =
       [exchange_request (Some ''cid'') (Some ''sec'') ''abc'' ''https://relay.example/auth/callback'']"
    using refused [THEN conjunct1]
    by (simp add: demo_callback_params(2) demo_started_fields)
  have ab: "fst (snd (auth_callback demo_runtime demo_started fetch_invalid_code ''t1'' demo_callback)) =
             demo_started
         \<and> fetches (snd (snd (auth_callback demo_runtime
         (fst (snd (auth_callback demo_runtime demo_started fetch_invalid_code ''t1'' demo_callback)))
         fetch_invalid_code ''t2'' demo_callback))) =
       [exchange_request (Some ''cid'') (Some ''sec'') ''abc'' ''https://relay.example/auth/callback'']"
    using refused [THEN conjunct2, THEN conjunct2] f1
    by (clarsimp simp add: demo_callback_params(2) demo_exchange_refused)
  have c: "pendingStates (fst (snd (auth_callback demo_runtime demo_started fetch_token ''t1''
                                      demo_callback))) = []"
    using granted [THEN conjunct2, THEN conjunct1]
    by (simp add: demo_callback_params(2) demo_exchange_granted demo_data_token demo_started_fields
        Map_delete_def)
  from ab c show ?thesis by clarsimp
qed

subsection \<open>What a callback writes about a token\<close>

lemma exchange_success_events:
  assumes "toString rt code = Inr cd"
    and "fetch (exchange_request (clientId srv) (clientSecret srv) cd (redirectUri srv)) = Resolved r"
    and "response_ok r" and "body_json r = Inr data" and "truthy (prop_of data ''ok'')"
  shows "snd (exchangeCodeForToken rt srv fetch code) =
     [Console LOG [LStr ''Making token exchange request to Slack...''],
      Console LOG [LStr ''Request details:'',
         LObj [(''clientId'', LStr (if present (clientId srv) then ''Present'' else ''Missing'')),
               (''clientSecret'', LStr (if present (clientSecret srv) then ''Present'' else ''Missing'')),
               (''code'', LStr (if truthy code then ''Present'' else ''Missing'')),
               (''redirectUri'', LStr (redirectUri srv))]],
      Fetch (exchange_request (clientId srv) (clientSecret srv) cd (redirectUri srv)),
      Console LOG [LStr ''Slack API response status:'', LNum (int (status r)), LStr (statusText r)],
      Console LOG [LStr ''Slack response structure:'',
         LObj [(''ok'', LVal (prop_of data ''ok'')),
               (''hasAuthedUser'', LBool (truthy (prop_of data ''authed_user''))),
               (''hasAccessToken'', LBool (truthy (prop_of data ''authed_user'') \<and> truthy (token_of data))),
               (''hasTeam'', LBool (truthy (prop_of data ''team''))),
               (''error'', LVal (prop_of data ''error''))]],
      Console LOG [LStr ''Token exchange successful'']]"
  using assms truthy_prop_not_nullish [OF assms(5)]
  by (simp add: exchangeCodeForToken_def Let_def token_of_def)

lemma generated_line_with_token:
  assumes "truthy (token_of d)"
  shows "generated_line rt (with_token d t) sd = generated_line rt d sd"
proof -
  have n: "prop_of (prop_of (with_token d t) ''authed_user'') ''name'' =
             prop_of (prop_of d ''authed_user'') ''name''"
    and i: "prop_of (prop_of (with_token d t) ''authed_user'') ''id'' =
             prop_of (prop_of d ''authed_user'') ''id''"
    by (rule with_token_props(3) [OF assms], simp)+
  show ?thesis unfolding generated_line_def n i by (rule refl)
qed

lemma success_page_outcome_with_token:
  assumes "truthy (token_of d)" and "toString rt (token_of d) = Inr s"
    and "truthy t" and "toString rt t = Inr s'"
  shows "snd (getSuccessPageWithToken rt (with_token d t) sd g) =
         snd (getSuccessPageWithToken rt d sd g)"
proof -
  have a: "toString rt (js_or (token_of d) (JStr ''No token generated'')) = Inr s"
    and b: "toString rt (js_or t (JStr ''No token generated'')) = Inr s'"
    using assms by (simp_all add: js_or_def)
  from styled_page_outcome [OF a b]
  have "(case success_page_try rt (with_token d t) sd g of Inr page \<Rightarrow> None | Inl x \<Rightarrow> Some x) =
        (case success_page_try rt d sd g of Inr page \<Rightarrow> None | Inl x \<Rightarrow> Some x)"
    unfolding success_page_try_token with_token_props(1) [OF assms(1)]
    by (simp add: with_token_props(2) [OF assms(1)] with_token_props(3) [OF assms(1)])
  then show ?thesis
    unfolding success_page_events by (auto split: sum.splits)
qed

text \<open>
  C3, as stated, fails: it speaks of every execution, and an execution in which the
  provider reports a failure is logged as it is received. When the provider refuses the
  code (\<open>ok\<close> is \<open>false\<close>) in an answer that carries an access token \<open>xoxp-test\<close>,
  the route writes the whole answer to the console (\<open>Full error response:\<close>) and replies
  with the error page, not with a success response. When the token comes in the body of a
  response with status 500, the body is written to the console (\<open>Response body:\<close>) and
  stands in the error page.
\<close>

theorem failed_exchange_logs_token_counterexample:
  "list_ex (mentions ''xoxp-test'')
     (console (snd (snd (auth_callback demo_runtime demo_started fetch_refused_with_token ''t''
                           demo_callback))))
   \<and> fst (auth_callback demo_runtime demo_started fetch_refused_with_token ''t'' demo_callback) =
       Send 200 (getErrorPage ''Token exchange failed: OAuth exchange failed: invalid_code'')
   \<and> list_ex (mentions ''xoxp-test'')
       (console (snd (snd (auth_callback demo_runtime demo_started fetch_500_with_token ''t''
                             demo_callback))))
   \<and> fst (auth_callback demo_runtime demo_started fetch_500_with_token ''t'' demo_callback) =
       Send 200 (getErrorPage
         ''Token exchange failed: HTTP error! status: 500 - {ok:true,authed_user:{access_token:xoxp-test}}'')"
proof -
  have a: "list_ex (mentions ''xoxp-test'')
     (console (snd (snd (auth_callback demo_runtime demo_started fetch_refused_with_token ''t''
                           demo_callback))))"
    by code_simp
  have b: "list_ex (mentions ''xoxp-test'')
       (console (snd (snd (auth_callback demo_runtime demo_started fetch_500_with_token ''t''
                             demo_callback))))"
    by code_simp
  have x1: "fst (exchangeCodeForToken demo_runtime demo_started fetch_refused_with_token
                  (query_value (query demo_callback) ''code'')) =
              Inl (JsError ''Error'' ''OAuth exchange failed: invalid_code'')"
    unfolding demo_callback_params(2)
    using exchange_not_ok [where fetch = fetch_refused_with_token and srv = demo_started
      and code = "JStr ''abc''" and rt = demo_runtime and cd = "''abc''"
      and r = "\<lparr>status = 200, statusText = ''OK'',
        body_text = ''{ok:false,error:invalid_code,authed_user:{access_token:xoxp-test}}'',
        body_json = Inr (JObj [(''ok'', JBool False), (''error'', JStr ''invalid_code''),
                               (''authed_user'', JObj [(''access_token'', JStr ''xoxp-test'')])])\<rparr>"
      and data = "JObj [(''ok'', JBool False), (''error'', JStr ''invalid_code''),
                        (''authed_user'', JObj [(''access_token'', JStr ''xoxp-test'')])]"]
    by (simp add: fetch_refused_with_token_def response_ok_def nullish_def prop_of_def)
  have s500: "string_of_nat 500 = ''500''" by code_simp
  have x2: "fst (exchangeCodeForToken demo_runtime demo_started fetch_500_with_token
                  (query_value (query demo_callback) ''code'')) =
              Inl (JsError ''Error''
                ''HTTP error! status: 500 - {ok:true,authed_user:{access_token:xoxp-test}}'')"
    unfolding demo_callback_params(2)
    using exchange_http_error [where fetch = fetch_500_with_token and srv = demo_started
      and code = "JStr ''abc''" and rt = demo_runtime and cd = "''abc''"
      and r = "\<lparr>status = 500, statusText = ''Internal Server Error'',
                body_text = ''{ok:true,authed_user:{access_token:xoxp-test}}'',
                body_json = Inr demo_data\<rparr>"]
    by (simp add: fetch_500_with_token_def response_ok_def s500)
  from callback_exchange_failed(1) [OF demo_callback_params(1) demo_callback_params(4)
      demo_callback_params(5) demo_callback_params(6) x1, of "''t''"]
    callback_exchange_failed(1) [OF demo_callback_params(1) demo_callback_params(4)
      demo_callback_params(5) demo_callback_params(6) x2, of "''t''"] a b
  show ?thesis by simp
qed

text \<open>
  C3, amended. In every run of the server's callback in which the exchange succeeds and
  hands over an access token that has a text (the state is in the store, the code goes
  out, the provider answers with a success status, \<open>ok\<close> and a token), the reply is a
  page with status 200 and the token stands in it; and nothing else that the run does
  depends on the token: a run that differs only in the token received (and in the raw
  body that carries it) writes the same console lines, makes the same call and ends the
  same way. (A run in which the provider reports a failure writes the answer to the
  console as it is received.)
\<close>

theorem token_shown_not_logged:
  assumes "\<not> truthy (query_value (query req) ''error'')"
    and "truthy (query_value (query req) ''code'')"
    and "toString rt (query_value (query req) ''code'') = Inr cd"
    and "query_value (query req) ''state'' = JStr st" and "st \<noteq> []"
    and "Map_get (pendingStates srv) st = Some sd"
    and "fetch (exchange_request (clientId srv) (clientSecret srv) cd (redirectUri srv)) = Resolved r"
    and "response_ok r" and "body_json r = Inr d" and "truthy (prop_of d ''ok'')"
    and "truthy (token_of d)" and "toString rt (token_of d) = Inr tok"
    and "fetch' (exchange_request (clientId srv) (clientSecret srv) cd (redirectUri srv)) =
           Resolved (r\<lparr>body_text := text', body_json := Inr (with_token d t')\<rparr>)"
    and "truthy t'" and "toString rt t' = Inr tok'"
  shows "fst (auth_callback rt srv fetch g req) = Send 200 (res_body (fst (auth_callback rt srv fetch g req)))
       \<and> sublist tok (res_body (fst (auth_callback rt srv fetch g req)))
       \<and> snd (snd (auth_callback rt srv fetch' g req)) = snd (snd (auth_callback rt srv fetch g req))
       \<and> console (snd (snd (auth_callback rt srv fetch' g req))) =
           console (snd (snd (auth_callback rt srv fetch g req)))"
proof -
  let ?d' = "with_token d t'"
  let ?r' = "r\<lparr>body_text := text', body_json := Inr ?d'\<rparr>"
  let ?code = "query_value (query req) ''code''"
  have gs: "truthy (query_value (query req) ''state'')" using assms(4,5) by simp
  have ms: "Map_get_v (pendingStates srv) (query_value (query req) ''state'') = Some sd"
    using assms(4,6) by simp
  have tok': "token_of ?d' = t'" by (rule with_token_props(1) [OF assms(11)])
  have ok': "response_ok ?r'" "body_json ?r' = Inr ?d'" "truthy (prop_of ?d' ''ok'')"
    using assms(8,10) with_token_props(2) [OF assms(11), of "''ok''" t']
    by (simp_all add: response_ok_def)
  have ex: "fst (exchangeCodeForToken rt srv fetch ?code) = Inr d"
    unfolding exchange_Inr_iff using assms(3,7-10) by simp
  have ex': "fst (exchangeCodeForToken rt srv fetch' ?code) = Inr ?d'"
    unfolding exchange_Inr_iff using assms(3,13) ok' by simp
  have t2: "truthy (token_of ?d')" "toString rt (token_of ?d') = Inr tok'"
    using assms(14,15) by (simp_all add: tok')
  from success_page_shows_token [OF assms(11,12), of sd g]
  obtain page where page: "fst (getSuccessPageWithToken rt d sd g) = Inr page" "sublist tok page"
    by blast
  from success_page_shows_token [OF t2, of sd g]
  obtain page' where page': "fst (getSuccessPageWithToken rt ?d' sd g) = Inr page'"
    by blast
  note run = callback_success [OF assms(1) assms(2) gs ms ex assms(11) page(1)]
  note run' = callback_success [OF assms(1) assms(2) gs ms ex' t2(1) page']
  have xe: "snd (exchangeCodeForToken rt srv fetch' ?code) = snd (exchangeCodeForToken rt srv fetch ?code)"
    unfolding exchange_success_events [where fetch = fetch and srv = srv, OF assms(3) assms(7-10)]
      exchange_success_events [where fetch = fetch' and srv = srv, OF assms(3) assms(13) ok']
    using assms(11,14) with_token_props(2) [OF assms(11), of _ t'] with_token_props(4) [OF assms(11), of t']
      truthy_token_of(2) [OF assms(11)]
    by (simp add: tok')
  have ve: "validated_events rt srv fetch' req sd = validated_events rt srv fetch req sd"
    by (simp add: validated_events_def xe)
  have events: "snd (snd (auth_callback rt srv fetch' g req)) = snd (snd (auth_callback rt srv fetch g req))"
    unfolding run(3) run'(3) ve
      success_page_outcome_with_token [OF assms(11,12,14,15)]
      generated_line_with_token [OF assms(11)]
    by (rule refl)
  from run(1) page(2) events show ?thesis by simp
qed

theorem token_shown_not_logged_witness:
  "sublist ''xoxp-test''
     (res_body (fst (auth_callback demo_runtime demo_started fetch_token ''t'' demo_callback)))
   \<and> fst (auth_callback demo_runtime demo_started fetch_token ''t'' demo_callback) =
       Send 200 (res_body (fst (auth_callback demo_runtime demo_started fetch_token ''t'' demo_callback)))
   \<and> console (snd (snd (auth_callback demo_runtime demo_started fetch_other_token ''t'' demo_callback))) =
       console (snd (snd (auth_callback demo_runtime demo_started fetch_token ''t'' demo_callback)))
   \<and> \<not> list_ex (mentions ''xoxp-test'')
         (console (snd (snd (auth_callback demo_runtime demo_started fetch_token ''t'' demo_callback))))"
proof -
  have quiet: "\<not> list_ex (mentions ''xoxp-test'')
         (console (snd (snd (auth_callback demo_runtime demo_started fetch_token ''t'' demo_callback))))"
    by code_simp
  let ?r = "\<lparr>status = 200, statusText = ''OK'', body_text = ''{ok:true,...}'',
             body_json = Inr demo_data\<rparr>"
  have ne: "''5f1c'' \<noteq> []" by simp
  have f: "fetch_token (exchange_request (clientId demo_started) (clientSecret demo_started)
             ''abc'' (redirectUri demo_started)) =
           Resolved ?r"
    by (simp add: fetch_token_def)
  have ok: "response_ok ?r" by (simp add: response_ok_def)
  have js: "body_json ?r = Inr demo_data" by simp
  have okd: "truthy (prop_of demo_data ''ok'')" by (simp add: demo_data_def prop_of_def)
  have tk: "truthy (token_of demo_data)" "toString demo_runtime (token_of demo_data) = Inr ''xoxp-test''"
    by (simp_all add: demo_data_token)
  have f': "fetch_other_token (exchange_request (clientId demo_started) (clientSecret demo_started)
              ''abc'' (redirectUri demo_started)) =
            Resolved (?r\<lparr>body_text := ''{ok:true,other}'',
               body_json := Inr (with_token demo_data (JStr ''xoxp-other''))\<rparr>)"
    by (simp add: fetch_other_token_def demo_data_def with_token_def with_prop_def prop_of_def)
  have tk': "truthy (JStr ''xoxp-other'')" "toString demo_runtime (JStr ''xoxp-other'') = Inr ''xoxp-other''"
    by simp_all
  from token_shown_not_logged [where fetch = fetch_token and fetch' = fetch_other_token
      and srv = demo_started and g = "''t''" and rt = demo_runtime and req = demo_callback,
      OF demo_callback_params(1) demo_callback_params(4) demo_callback_params(7)
      demo_callback_params(3) ne demo_started_state f ok js okd tk f' tk'] quiet
  show ?thesis by simp
qed

subsection \<open>A success page that cannot be built\<close>

lemma fallback_template_not_error_page: "fallback_template tok \<noteq> getErrorPage msg"
  by (simp add: fallback_template_def getErrorPage_def)

lemma opaque_token:
  "truthy (token_of opaque_data)"
  "toString demo_runtime (token_of opaque_data) = Inl (not_primitive demo_runtime)"
  "truthy (prop_of opaque_data ''ok'')"
  by (simp_all add: opaque_data_def token_of_def prop_of_def)

lemma opaque_exchange:
  "fst (exchangeCodeForToken demo_runtime demo_started fetch_opaque_token
          (query_value (query demo_callback) ''code'')) = Inr opaque_data"
  unfolding exchange_Inr_iff
  by (simp add: fetch_opaque_token_def response_ok_def opaque_token demo_callback_params)

text \<open>
  C9, as stated, fails. The provider answers the exchange with \<open>ok\<close> and an
  \<open>access_token\<close> that is truthy and has no text (an object with a property
  \<open>toString\<close>). The route takes the exchange for successful and deletes the state. The
  styled page cannot be built, and the short page in the \<open>catch\<close> of
  \<open>getSuccessPageWithToken\<close> cannot be built either, so the function throws; the route's
  own \<open>catch\<close> replies with a fixed plain text, status 500, in which no token stands.
\<close>

theorem opaque_token_counterexample:
  "fst (exchangeCodeForToken demo_runtime demo_started fetch_opaque_token (JStr ''abc'')) =
     Inr opaque_data
   \<and> truthy (token_of opaque_data)
   \<and> fst (auth_callback demo_runtime demo_started fetch_opaque_token ''t'' demo_callback) =
       Send 500 ''Success! Token generated, but error displaying page. Check server logs.''
   \<and> pendingStates (fst (snd (auth_callback demo_runtime demo_started fetch_opaque_token ''t''
                                 demo_callback))) = []
   \<and> \<not> list_ex (mentions ''toString'')
         (console (snd (snd (auth_callback demo_runtime demo_started fetch_opaque_token ''t''
                               demo_callback))))"
proof -
  note thrown = success_page_throws(2) [OF opaque_token(1) opaque_token(2),
      of "\<lparr>user_id = ''u1'', user_name = [], timestamp = 1000\<rparr>" "''t''"]
  note run = callback_page_refused [OF demo_callback_params(1) demo_callback_params(4)
      demo_callback_params(5) demo_callback_params(6) opaque_exchange opaque_token(1) thrown]
  have a: "fst (exchangeCodeForToken demo_runtime demo_started fetch_opaque_token (JStr ''abc'')) =
     Inr opaque_data"
    using opaque_exchange by (simp add: demo_callback_params(2))
  have c: "pendingStates (fst (snd (auth_callback demo_runtime demo_started fetch_opaque_token ''t''
                                 demo_callback))) = []"
    unfolding run(2) by (simp add: demo_callback_params(3) demo_started_fields Map_delete_def)
  have d: "\<not> list_ex (mentions ''toString'')
         (console (snd (snd (auth_callback demo_runtime demo_started fetch_opaque_token ''t''
                               demo_callback))))"
    by code_simp
  from a opaque_token(1) run(1) c d show ?thesis by simp
qed

text \<open>
  C9, amended. If building the styled success page fails after a successful token
  exchange, the failure is caught inside \<open>getSuccessPageWithToken\<close>, apart from the
  exchange errors: it is logged, the state is consumed, and no error page of an exchange
  failure is sent. When the access token has a text, the reply is the short unstyled
  page, with status 200, and the token stands in it. When the access token has no text,
  the short page fails too, and the route's own \<open>catch\<close> replies with a fixed plain
  text, status 500, that does not carry the token.
\<close>

theorem render_failure_falls_back:
  assumes "\<not> truthy (query_value (query req) ''error'')"
    and "truthy (query_value (query req) ''code'')"
    and "query_value (query req) ''state'' = JStr st" and "st \<noteq> []"
    and "Map_get (pendingStates srv) st = Some sd"
    and "fst (exchangeCodeForToken rt srv fetch (query_value (query req) ''code'')) = Inr d"
    and "truthy (token_of d)"
    and "success_page_try rt d sd g = Inl x"
  shows "(\<forall>tok. toString rt (token_of d) = Inr tok \<longrightarrow>
            fst (auth_callback rt srv fetch g req) = Send 200 (fallback_template tok)
            \<and> sublist tok (fallback_template tok))
       \<and> (\<forall>e. toString rt (token_of d) = Inl e \<longrightarrow>
            fst (auth_callback rt srv fetch g req) =
              Send 500 ''Success! Token generated, but error displaying page. Check server logs.'')
       \<and> (\<forall>msg. fst (auth_callback rt srv fetch g req) \<noteq> Send 200 (getErrorPage msg))
       \<and> fst (snd (auth_callback rt srv fetch g req)) =
           srv\<lparr>pendingStates := Map_delete (pendingStates srv) st\<rparr>
       \<and> (ERROR, [LStr ''Error generating success page:'', LErr x])
           \<in> set (console (snd (snd (auth_callback rt srv fetch g req))))"
proof -
  have gs: "truthy (query_value (query req) ''state'')" using assms(3,4) by simp
  have ms: "Map_get_v (pendingStates srv) (query_value (query req) ''state'') = Some sd"
    using assms(3,5) by simp
  have logged: "(ERROR, [LStr ''Error generating success page:'', LErr x])
                  \<in> set (console (snd (getSuccessPageWithToken rt d sd g)))"
    unfolding success_page_events by (simp add: assms(8))
  show ?thesis
  proof (cases "toString rt (token_of d)")
    case (Inr tok)
    then have "toString rt (js_or (token_of d) (JStr ''Error displaying token'')) = Inr tok"
      using assms(7) by (simp add: js_or_def)
    then have page: "fst (getSuccessPageWithToken rt d sd g) = Inr (fallback_template tok)"
      using assms(8) by (simp add: getSuccessPageWithToken_def fallback_page_def token_of_def)
    note run = callback_success [OF assms(1) assms(2) gs ms assms(6) assms(7) page]
    from run(1) run(2) logged Inr show ?thesis
      unfolding run(3)
      by (simp add: assms(3) sublist_fallback_template fallback_template_not_error_page)
  next
    case (Inl e)
    note thrown = success_page_throws(2) [OF assms(7) Inl, of sd g]
    note run = callback_page_refused [OF assms(1) assms(2) gs ms assms(6) assms(7) thrown]
    from run(1) run(2) logged Inl show ?thesis
      unfolding run(3) by (simp add: assms(3))
  qed
qed

theorem render_failure_falls_back_witness:
  "fst (auth_callback demo_runtime demo_started fetch_odd_scope ''t'' demo_callback) =
     Send 200 (fallback_template ''xoxp-test'')
   \<and> sublist ''xoxp-test'' (fallback_template ''xoxp-test'')
   \<and> pendingStates (fst (snd (auth_callback demo_runtime demo_started fetch_odd_scope ''t''
                                 demo_callback))) = []
   \<and> (ERROR, [LStr ''Error generating success page:'', LErr (not_a_function demo_runtime)])
       \<in> set (console (snd (snd (auth_callback demo_runtime demo_started fetch_odd_scope ''t''
                                   demo_callback))))
   \<and> fst (auth_callback demo_runtime demo_started fetch_opaque_token ''t'' demo_callback) =
       Send 500 ''Success! Token generated, but error displaying page. Check server logs.''"
proof -
  have ne: "''5f1c'' \<noteq> []" by simp
  let ?sd = "\<lparr>user_id = ''u1'', user_name = [], timestamp = 1000\<rparr>"
  have odd: "truthy (token_of odd_data)" "toString demo_runtime (token_of odd_data) = Inr ''xoxp-test''"
    "truthy (prop_of odd_data ''ok'')"
    by (simp_all add: odd_data_def token_of_def prop_of_def)
  have ex: "fst (exchangeCodeForToken demo_runtime demo_started fetch_odd_scope
                   (query_value (query demo_callback) ''code'')) = Inr odd_data"
    unfolding exchange_Inr_iff
    by (simp add: fetch_odd_scope_def response_ok_def odd demo_callback_params)
  have fails: "success_page_try demo_runtime odd_data ?sd ''t'' = Inl (not_a_function demo_runtime)"
    by (simp add: success_page_try_def styled_page_def odd_data_def prop_of_def js_or_def Let_def)
  have fails': "success_page_try demo_runtime opaque_data ?sd ''t'' = Inl (not_primitive demo_runtime)"
    by (rule success_page_throws(1) [OF opaque_token(1) opaque_token(2)])
  note a = render_failure_falls_back [where rt = demo_runtime and fetch = fetch_odd_scope,
      OF demo_callback_params(1) demo_callback_params(4) demo_callback_params(3) ne
      demo_started_state ex odd(1) fails]
  note b = render_failure_falls_back [where rt = demo_runtime and fetch = fetch_opaque_token,
      OF demo_callback_params(1) demo_callback_params(4) demo_callback_params(3) ne
      demo_started_state opaque_exchange opaque_token(1) fails']
  have c: "pendingStates (fst (snd (auth_callback demo_runtime demo_started fetch_odd_scope ''t''
                                 demo_callback))) = []"
    using a [THEN conjunct2, THEN conjunct2, THEN conjunct2, THEN conjunct1]
    by (simp add: demo_started_fields Map_delete_def)
  from a [THEN conjunct1] a [THEN conjunct2, THEN conjunct2, THEN conjunct2, THEN conjunct2]
    b [THEN conjunct2, THEN conjunct1] c odd(2) opaque_token(2)
  show ?thesis by simp
qed

subsection \<open>Start of the flow\<close>

lemma auth_start_reply:
  "fst (auth_start srv state now req) =
     Redirect redirect_default
       (''https://slack.com/oauth/v2/authorize?'' @
        ''client_id='' @ str_of (clientId srv) @ ''&'' @
        ''user_scope='' @ encodeURIComponent (join '','' [''channels:read'', ''groups:read'', ''users:read'']) @ ''&'' @
        ''redirect_uri='' @ encodeURIComponent (redirectUri srv) @ ''&'' @
        ''state='' @ state)"
  by (simp add: auth_start_def Let_def)

lemma auth_start_store:
  "pendingStates (fst (snd (auth_start srv state now req))) =
     Map_set (pendingStates srv) state
       \<lparr>user_id = validateInput (query_value (query req) ''user_id''),
        user_name = validateInput (query_value (query req) ''user_name''), timestamp = now\<rparr>"
  by (simp add: auth_start_def Let_def)

lemma start_listening_iff:
  "start srv = Listening \<longleftrightarrow> present (clientId srv) \<and> present (clientSecret srv)"
  by (simp add: start_def)

lemma start_exit: "start srv \<noteq> Listening \<Longrightarrow> start srv = Exit 1"
  by (simp add: start_def split: if_splits)

lemma server_redirectUri_present: "redirectUri (UserTokenGenerator e) \<noteq> []"
  by (simp add: UserTokenGenerator_def Let_def or_else_def split: option.splits)

lemma encode_examples:
  "encodeURIComponent ''https://relay.example/auth/callback'' =
     ''https%3A%2F%2Frelay.example%2Fauth%2Fcallback''"
  "encodeURIComponent ''http://localhost:3000/auth/callback'' =
     ''http%3A%2F%2Flocalhost%3A3000%2Fauth%2Fcallback''"
  "encodeURIComponent ''channels:read,groups:read,users:read'' =
     ''channels%3Aread%2Cgroups%3Aread%2Cusers%3Aread''"
  by code_simp+

text \<open>
  C7, as stated, fails on the server. With \<open>SLACK_REDIRECT_URI\<close> absent from the
  configuration (client identifier and secret set) the server starts, and its start route
  answers with the redirect, to an authorization URL whose callback is the default
  \<open>http://localhost:3000/auth/callback\<close>, where the claim asks for the
  server-configuration error and no redirect.
\<close>

theorem missing_callback_url_counterexample:
  "SLACK_REDIRECT_URI no_callback_url_env = None
   \<and> start (UserTokenGenerator no_callback_url_env) = Listening
   \<and> fst (auth_start (UserTokenGenerator no_callback_url_env) ''5f1c'' 1000
            \<lparr>query = [], req_url = ''/auth/start'', req_headers = []\<rparr>) =
     Redirect 302 ''https://slack.com/oauth/v2/authorize?client_id=cid&user_scope=channels%3Aread%2Cgroups%3Aread%2Cusers%3Aread&redirect_uri=http%3A%2F%2Flocalhost%3A3000%2Fauth%2Fcallback&state=5f1c''"
  by (simp add: auth_start_reply encode_examples start_def UserTokenGenerator_def
      no_callback_url_env_def Let_def or_else_def redirect_default_def)

text \<open>
  C7, amended. The start route of the server never fails and never sends a
  server-configuration error: it answers every request with a redirect, status 302, to
  the provider's authorization URL, which ends with the minted state. Missing
  configuration is dealt with before any request: without a client identifier or a
  client secret \<open>start()\<close> ends the process with exit code 1 instead of listening, and
  a callback URL that is absent (or empty) is replaced by the default
  \<open>http://localhost:<port>/auth/callback\<close>.
\<close>

theorem auth_start_always_redirects:
  "fst (auth_start srv state now req) =
     Redirect 302
       (''https://slack.com/oauth/v2/authorize?'' @
        ''client_id='' @ str_of (clientId srv) @ ''&'' @
        ''user_scope='' @ ''channels%3Aread%2Cgroups%3Aread%2Cusers%3Aread'' @ ''&'' @
        ''redirect_uri='' @ encodeURIComponent (redirectUri srv) @ ''&'' @
        ''state='' @ state)
   \<and> (\<forall>n b. fst (auth_start srv state now req) \<noteq> Send n b)
   \<and> (start srv = Listening \<longleftrightarrow> present (clientId srv) \<and> present (clientSecret srv))
   \<and> (start srv \<noteq> Listening \<longrightarrow> start srv = Exit 1)
   \<and> clientId (UserTokenGenerator e) = SLACK_CLIENT_ID e
   \<and> clientSecret (UserTokenGenerator e) = SLACK_CLIENT_SECRET e
   \<and> redirectUri (UserTokenGenerator e) =
       or_else (SLACK_REDIRECT_URI e) (''http://localhost:'' @ or_else (PORT e) ''3000'' @ ''/auth/callback'')
   \<and> redirectUri (UserTokenGenerator e) \<noteq> []"
proof -
  have a: "fst (auth_start srv state now req) =
     Redirect 302
       (''https://slack.com/oauth/v2/authorize?'' @
        ''client_id='' @ str_of (clientId srv) @ ''&'' @
        ''user_scope='' @ ''channels%3Aread%2Cgroups%3Aread%2Cusers%3Aread'' @ ''&'' @
        ''redirect_uri='' @ encodeURIComponent (redirectUri srv) @ ''&'' @
        ''state='' @ state)"
    unfolding auth_start_reply by (simp add: encode_examples redirect_default_def)
  have b: "\<forall>n b. fst (auth_start srv state now req) \<noteq> Send n b"
    unfolding auth_start_reply by simp
  have c: "clientId (UserTokenGenerator e) = SLACK_CLIENT_ID e"
    "clientSecret (UserTokenGenerator e) = SLACK_CLIENT_SECRET e"
    "redirectUri (UserTokenGenerator e) =
       or_else (SLACK_REDIRECT_URI e) (''http://localhost:'' @ or_else (PORT e) ''3000'' @ ''/auth/callback'')"
    by (simp_all add: UserTokenGenerator_def Let_def)
  from a b c start_listening_iff [of srv] start_exit [of srv] server_redirectUri_present [of e]
  show ?thesis by blast
qed

theorem auth_start_always_redirects_witness:
  "fst (auth_start (UserTokenGenerator demo_env) ''5f1c'' 1000
          \<lparr>query = [], req_url = ''/auth/start'', req_headers = []\<rparr>) =
     Redirect 302 ''https://slack.com/oauth/v2/authorize?client_id=cid&user_scope=channels%3Aread%2Cgroups%3Aread%2Cusers%3Aread&redirect_uri=https%3A%2F%2Frelay.example%2Fauth%2Fcallback&state=5f1c''
   \<and> start (UserTokenGenerator demo_env) = Listening
   \<and> start (UserTokenGenerator
          \<lparr>SLACK_CLIENT_ID = None, SLACK_CLIENT_SECRET = Some ''sec'',
           SLACK_REDIRECT_URI = None, PORT = None\<rparr>) = Exit 1
   \<and> redirectUri (UserTokenGenerator no_callback_url_env) = ''http://localhost:3000/auth/callback''"
proof -
  let ?e1 = "\<lparr>SLACK_CLIENT_ID = None, SLACK_CLIENT_SECRET = Some ''sec'',
           SLACK_REDIRECT_URI = None, PORT = None\<rparr>"
  let ?rq = "\<lparr>query = [], req_url = ''/auth/start'', req_headers = []\<rparr>"
  note a = auth_start_always_redirects [where srv = "UserTokenGenerator demo_env" and e = demo_env
      and state = "''5f1c''" and now = 1000 and req = ?rq]
  note b = auth_start_always_redirects [where srv = "UserTokenGenerator ?e1" and e = no_callback_url_env
      and state = "''5f1c''" and now = 1000 and req = ?rq]
  have srv: "clientId (UserTokenGenerator demo_env) = Some ''cid''"
    "clientSecret (UserTokenGenerator demo_env) = Some ''sec''"
    "redirectUri (UserTokenGenerator demo_env) = ''https://relay.example/auth/callback''"
    "clientId (UserTokenGenerator ?e1) = None"
    by (simp_all add: UserTokenGenerator_def demo_env_def Let_def or_else_def)
  have r1: "fst (auth_start (UserTokenGenerator demo_env) ''5f1c'' 1000 ?rq) =
     Redirect 302 ''https://slack.com/oauth/v2/authorize?client_id=cid&user_scope=channels%3Aread%2Cgroups%3Aread%2Cusers%3Aread&redirect_uri=https%3A%2F%2Frelay.example%2Fauth%2Fcallback&state=5f1c''"
    using a [THEN conjunct1] by (simp add: srv encode_examples)
  have r2: "start (UserTokenGenerator demo_env) = Listening"
    using a [THEN conjunct2, THEN conjunct2, THEN conjunct1] by (simp add: srv)
  have r3: "start (UserTokenGenerator ?e1) = Exit 1"
    using b [THEN conjunct2, THEN conjunct2, THEN conjunct1]
      b [THEN conjunct2, THEN conjunct2, THEN conjunct2, THEN conjunct1]
    by (simp add: srv)
  have r4: "redirectUri (UserTokenGenerator no_callback_url_env) = ''http://localhost:3000/auth/callback''"
    using b [THEN conjunct2, THEN conjunct2, THEN conjunct2, THEN conjunct2, THEN conjunct2,
        THEN conjunct2, THEN conjunct1]
    by (simp add: no_callback_url_env_def or_else_def)
  from r1 r2 r3 r4 show ?thesis by simp
qed

subsection \<open>The serverless module\<close>

text \<open>What the text of \<open>handleAuthStart\<close> says, were the module to load.\<close>

lemma handleAuthStart_store:
  "snd (handleAuthStart pr e m state now q) =
     Map_set m state \<lparr>user_id = or_else (qparam q ''user_id'') [],
                      user_name = or_else (qparam q ''user_name'') [], timestamp = now\<rparr>"
  by (simp add: handleAuthStart_def Let_def)

lemma handleAuthStart_misconfigured:
  assumes "\<not> present (SLACK_CLIENT_ID e) \<or> \<not> present (SLACK_REDIRECT_URI e)"
  shows "fst (handleAuthStart pr e m state now q) =
           Send 500 ''<h1>Server Configuration Error</h1><p>Missing Slack credentials</p>''"
  using assms by (auto simp add: handleAuthStart_def Let_def)




subsection \<open>What the start of a flow stores\<close>

lemma validateInput_absent:
  "validateInput JUndefined = []" "validateInput (JStr []) = []"
  "validateInput (JArr xs) = []" "validateInput (JObj kvs) = []"
  by (simp_all add: validateInput_def)

lemma validateInput_steps:
  "s \<noteq> [] \<Longrightarrow> validateInput (JStr s) =
     filter (\<lambda>c. c \<notin> {CHR ''<'', CHR ''>'', CHR 0x22, CHR 0x27, CHR ''&''}) (take 100 (trim s))"
  by (simp add: validateInput_def)

lemma validateInput_no_string: "(\<forall>s. x \<noteq> JStr s) \<Longrightarrow> validateInput x = []"
  by (cases x) (simp_all add: validateInput_def)

lemma validateInput_cases:
  "validateInput x = [] \<or>
   (\<exists>s. validateInput x =
      filter (\<lambda>c. c \<notin> {CHR ''<'', CHR ''>'', CHR 0x22, CHR 0x27, CHR ''&''}) (take 100 (trim s)))"
  by (auto simp add: validateInput_def split: jsval.splits)

lemma validateInput_length: "length (validateInput x) \<le> 100"
proof -
  have "length (filter (\<lambda>c. c \<notin> {CHR ''<'', CHR ''>'', CHR 0x22, CHR 0x27, CHR ''&''}) (take 100 (trim s)))
          \<le> 100" for s
  proof -
    have "length (filter (\<lambda>c. c \<notin> {CHR ''<'', CHR ''>'', CHR 0x22, CHR 0x27, CHR ''&''}) (take 100 (trim s)))
            \<le> length (take 100 (trim s))"
      by (rule length_filter_le)
    also have "\<dots> \<le> 100" by simp
    finally show ?thesis .
  qed
  with validateInput_cases [of x] show ?thesis by auto
qed

lemma validateInput_clean:
  "set (validateInput x) \<inter> {CHR ''<'', CHR ''>'', CHR 0x22, CHR 0x27, CHR ''&''} = {}"
  using validateInput_cases [of x] by auto

text \<open>
  C6. For every start request to the server, the entry stored under the minted state
  holds the two inputs as \<open>validateInput\<close> returns them: a string that is not empty is
  trimmed, cut to 100 characters and freed from the characters \<open><\<close>, \<open>>\<close>, the two
  quotes and \<open>&\<close>; an input that is absent (or empty, or no single string) is stored as
  the empty string. The stored text is never longer than 100 characters and holds none of
  the five characters, and the request is answered with the redirect whatever the inputs.
  (In the text of the serverless module the inputs are stored as they arrive,
  \<open>handleAuthStart_store\<close>; that module does not run.)
\<close>

theorem auth_start_stores_sanitized:
  "Map_get (pendingStates (fst (snd (auth_start srv state now req)))) state =
     Some \<lparr>user_id = validateInput (query_value (query req) ''user_id''),
           user_name = validateInput (query_value (query req) ''user_name''), timestamp = now\<rparr>
   \<and> (\<forall>s. s \<noteq> [] \<longrightarrow>
         validateInput (JStr s) =
           filter (\<lambda>c. c \<notin> {CHR ''<'', CHR ''>'', CHR 0x22, CHR 0x27, CHR ''&''}) (take 100 (trim s)))
   \<and> validateInput JUndefined = []
   \<and> validateInput (JStr []) = []
   \<and> (\<forall>x. (\<forall>s. x \<noteq> JStr s) \<longrightarrow> validateInput x = [])
   \<and> (\<forall>x. length (validateInput x) \<le> 100)
   \<and> (\<forall>x. set (validateInput x) \<inter> {CHR ''<'', CHR ''>'', CHR 0x22, CHR 0x27, CHR ''&''} = {})
   \<and> (\<exists>n u. fst (auth_start srv state now req) = Redirect n u)"
proof -
  have stored: "Map_get (pendingStates (fst (snd (auth_start srv state now req)))) state =
     Some \<lparr>user_id = validateInput (query_value (query req) ''user_id''),
           user_name = validateInput (query_value (query req) ''user_name''), timestamp = now\<rparr>"
    by (simp add: auth_start_store Map_get_set_same)
  have reply: "\<exists>n u. fst (auth_start srv state now req) = Redirect n u"
    by (simp add: auth_start_reply)
  from stored reply validateInput_steps validateInput_absent(1,2) validateInput_no_string
    validateInput_length validateInput_clean
  show ?thesis by blast
qed

theorem auth_start_stores_sanitized_witness:
  "Map_get (pendingStates (fst (snd (auth_start (UserTokenGenerator demo_env) ''5f1c'' 1000
                                       markup_request)))) ''5f1c'' =
     Some \<lparr>user_id = ''script'', user_name = ''ab'', timestamp = 1000\<rparr>
   \<and> Map_get (pendingStates (fst (snd (auth_start (UserTokenGenerator demo_env) ''5f1c'' 1000
         \<lparr>query = [], req_url = ''/auth/start'', req_headers = []\<rparr>)))) ''5f1c'' =
     Some \<lparr>user_id = [], user_name = [], timestamp = 1000\<rparr>
   \<and> Map_get (pendingStates (fst (snd (auth_start (UserTokenGenerator demo_env) ''5f1c'' 1000
         \<lparr>query = [(''user_id'', JArr [JStr ''a'', JStr ''b''])],
          req_url = ''/auth/start?user_id=a&user_id=b'', req_headers = []\<rparr>)))) ''5f1c'' =
     Some \<lparr>user_id = [], user_name = [], timestamp = 1000\<rparr>"
proof -
  have v: "validateInput (JStr ''<script>'') = ''script''"
    "validateInput (JStr ''  a&b  '') = ''ab''"
    by (simp_all add: validateInput_def trim_def is_space_def)
  from auth_start_stores_sanitized [of "UserTokenGenerator demo_env" "''5f1c''" 1000 markup_request,
      THEN conjunct1]
    auth_start_stores_sanitized [of "UserTokenGenerator demo_env" "''5f1c''" 1000
        "\<lparr>query = [], req_url = ''/auth/start'', req_headers = []\<rparr>", THEN conjunct1]
    auth_start_stores_sanitized [of "UserTokenGenerator demo_env" "''5f1c''" 1000
        "\<lparr>query = [(''user_id'', JArr [JStr ''a'', JStr ''b''])],
          req_url = ''/auth/start?user_id=a&user_id=b'', req_headers = []\<rparr>", THEN conjunct1]
  show ?thesis
    by (simp add: markup_request_def v validateInput_absent)
qed

subsection \<open>The token exchange\<close>




subsection \<open>Status codes of the callback\<close>

lemma callback_status:
  "res_status (fst (auth_callback rt srv fetch g req)) = 200
   \<or> fst (auth_callback rt srv fetch g req) =
       Send 500 ''Success! Token generated, but error displaying page. Check server logs.''"
proof (cases "truthy (query_value (query req) ''error'')")
  case True
  show ?thesis
  proof (cases "toString rt (query_value (query req) ''error'')")
    case (Inl e)
    from callback_provider_error_no_text(1) [OF True Inl] show ?thesis by simp
  next
    case (Inr s)
    from callback_provider_error(1) [OF True Inr] show ?thesis by simp
  qed
next
  case noerr: False
  show ?thesis
  proof (cases "truthy (query_value (query req) ''code'') \<and> truthy (query_value (query req) ''state'')")
    case False
    then have "\<not> truthy (query_value (query req) ''code'') \<or> \<not> truthy (query_value (query req) ''state'')"
      by simp
    from callback_missing(1) [OF noerr this] show ?thesis by simp
  next
    case True
    then have pc: "truthy (query_value (query req) ''code'')"
      and ps: "truthy (query_value (query req) ''state'')"
      by simp_all
    show ?thesis
    proof (cases "Map_get_v (pendingStates srv) (query_value (query req) ''state'')")
      case None
      from callback_invalid_state(1) [OF noerr pc ps None] show ?thesis by simp
    next
      case (Some sd)
      show ?thesis
      proof (cases "fst (exchangeCodeForToken rt srv fetch (query_value (query req) ''code''))")
        case (Inl x)
        from callback_exchange_failed(1) [OF noerr pc ps Some Inl] show ?thesis by simp
      next
        case (Inr d)
        show ?thesis
        proof (cases "truthy (token_of d)")
          case False
          from callback_invalid_token(1) [OF noerr pc ps Some Inr False] show ?thesis by simp
        next
          case True
          show ?thesis
          proof (cases "fst (getSuccessPageWithToken rt d sd g)")
            case (Inl pe)
            from callback_page_refused(1) [OF noerr pc ps Some Inr True Inl] show ?thesis by simp
          next
            case page: (Inr page)
            from callback_success(1) [OF noerr pc ps Some Inr True page] show ?thesis by simp
          qed
        qed
      qed
    qed
  qed
qed

text \<open>Every error page of the server's callback is sent with status 200.\<close>

lemma callback_error_pages_200:
  assumes "fst (auth_callback rt srv fetch g req) = Send n (getErrorPage msg)"
  shows "n = 200"
  using callback_status [of rt srv fetch g req] assms
  by (auto simp add: getErrorPage_def)

text \<open>The statuses in the text of the serverless \<open>handleAuthCallback\<close>.\<close>

lemma handler_failure_status:
  "(present (qparam q ''error'') \<longrightarrow> res_status (fst (handleAuthCallback rt e fetch g m q)) = 400)
   \<and> (\<not> present (qparam q ''error'') \<and> (\<not> present (qparam q ''code'') \<or> \<not> present (qparam q ''state''))
        \<longrightarrow> res_status (fst (handleAuthCallback rt e fetch g m q)) = 400)
   \<and> (\<not> present (qparam q ''error'') \<and> present (qparam q ''code'') \<and> present (qparam q ''state'')
        \<and> Map_get m (str_of (qparam q ''state'')) = None
        \<longrightarrow> res_status (fst (handleAuthCallback rt e fetch g m q)) = 400)
   \<and> (\<forall>sd. \<not> present (qparam q ''error'') \<and> present (qparam q ''code'') \<and> present (qparam q ''state'')
        \<and> Map_get m (str_of (qparam q ''state'')) = Some sd
        \<and> (case fetch (exchange_request (SLACK_CLIENT_ID e) (SLACK_CLIENT_SECRET e)
                          (str_of (qparam q ''code'')) (str_of (SLACK_REDIRECT_URI e))) of
              Rejected x \<Rightarrow> True
            | Resolved r \<Rightarrow>
                (case body_json r of
                   Inl x \<Rightarrow> True
                 | Inr d \<Rightarrow> \<not> truthy (prop_of d ''ok'')))
        \<longrightarrow> res_status (fst (handleAuthCallback rt e fetch g m q)) = 500)"
proof -
  have a: "res_status (fst (handleAuthCallback rt e fetch g m q)) = 400"
    if "present (qparam q ''error'')"
    using that by (simp add: handleAuthCallback_def Let_def)
  have b: "res_status (fst (handleAuthCallback rt e fetch g m q)) = 400"
    if "\<not> present (qparam q ''error'')"
      and "\<not> present (qparam q ''code'') \<or> \<not> present (qparam q ''state'')"
    using that by (auto simp add: handleAuthCallback_def Let_def)
  have c: "res_status (fst (handleAuthCallback rt e fetch g m q)) = 400"
    if "\<not> present (qparam q ''error'')" and "present (qparam q ''code'')"
      and "present (qparam q ''state'')" and "Map_get m (str_of (qparam q ''state'')) = None"
    using that by (simp add: handleAuthCallback_def Let_def)
  have d: "res_status (fst (handleAuthCallback rt e fetch g m q)) = 500"
    if noerr: "\<not> present (qparam q ''error'')" and pc: "present (qparam q ''code'')"
      and ps: "present (qparam q ''state'')" and st: "Map_get m (str_of (qparam q ''state'')) = Some sd"
      and failed: "case fetch (exchange_request (SLACK_CLIENT_ID e) (SLACK_CLIENT_SECRET e)
                          (str_of (qparam q ''code'')) (str_of (SLACK_REDIRECT_URI e))) of
              Rejected x \<Rightarrow> True
            | Resolved r \<Rightarrow>
                (case body_json r of
                   Inl x \<Rightarrow> True
                 | Inr d \<Rightarrow> \<not> truthy (prop_of d ''ok''))" for sd
  proof (cases "fetch (exchange_request (SLACK_CLIENT_ID e) (SLACK_CLIENT_SECRET e)
                  (str_of (qparam q ''code'')) (str_of (SLACK_REDIRECT_URI e)))")
    case (Rejected x)
    with noerr pc ps st show ?thesis
      by (simp add: handleAuthCallback_def Let_def handler_catch_def)
  next
    case (Resolved r)
    show ?thesis
    proof (cases "body_json r")
      case (Inl x)
      with Resolved noerr pc ps st show ?thesis
        by (simp add: handleAuthCallback_def Let_def handler_catch_def)
    next
      case (Inr d)
      with Resolved failed have "\<not> truthy (prop_of d ''ok'')" by simp
      with Inr Resolved noerr pc ps st show ?thesis
        by (simp add: handleAuthCallback_def Let_def handler_catch_def)
    qed
  qed
  from a b c d show ?thesis by blast
qed

text \<open>
  C8 holds for the text of the serverless handler (\<open>handler_failure_status\<close>) and not
  for the server, whose callback sends every error page with \<open>res.send\<close> and so with
  status 200 (\<open>callback_error_pages_200\<close>). On a callback with \<open>error=access_denied\<close>
  the server replies 200 with the error page, the serverless handler is written to reply
  400; after a refused exchange the server replies 200 with the error page.
\<close>

theorem callback_error_pages_sent_with_200:
  "fst (auth_callback demo_runtime demo_started fetch_token ''t''
          \<lparr>query = [(''error'', JStr ''access_denied'')], req_url = ''/auth/callback?error=access_denied'',
           req_headers = []\<rparr>) =
     Send 200 (getErrorPage ''OAuth Error: access_denied'')
   \<and> res_status (fst (handleAuthCallback demo_runtime demo_env fetch_token ''t'' handler_started
                         [(''error'', ''access_denied'')])) = 400
   \<and> fst replay_first =
     Send 200 (getErrorPage ''Token exchange failed: OAuth exchange failed: invalid_code'')
   \<and> res_status (fst handler_replay_first) = 500"
proof -
  let ?rq = "\<lparr>query = [(''error'', JStr ''access_denied'')], req_url = ''/auth/callback?error=access_denied'',
           req_headers = []\<rparr>"
  have p: "truthy (query_value (query ?rq) ''error'')"
    "toString demo_runtime (query_value (query ?rq) ''error'') = Inr ''access_denied''"
    by simp_all
  have a: "fst (auth_callback demo_runtime demo_started fetch_token ''t'' ?rq) =
     Send 200 (getErrorPage ''OAuth Error: access_denied'')"
    using callback_provider_error(1) [OF p, of demo_started fetch_token "''t''"]
    by simp
  have b: "res_status (fst (handleAuthCallback demo_runtime demo_env fetch_token ''t'' handler_started
                         [(''error'', ''access_denied'')])) = 400"
    using handler_failure_status [of "[(''error'', ''access_denied'')]" demo_runtime demo_env
        fetch_token "''t''" handler_started]
    by (simp add: qparam_def)
  have c: "res_status (fst handler_replay_first) = 500"
    unfolding handler_replay_first_def
    using handler_failure_status [of "[(''code'', ''abc''), (''state'', ''5f1c'')]" demo_runtime demo_env
        fetch_invalid_code "''t1''" handler_started]
    by (simp add: qparam_def handler_started_eq Map_get_def fetch_invalid_code_def prop_of_def)
  from a b replay_first_eq(1) c show ?thesis by simp
qed

theorem callback_error_pages_sent_with_200_witness:
  "res_status (fst (auth_callback demo_runtime demo_started fetch_token ''t''
          \<lparr>query = [(''error'', JStr ''access_denied'')], req_url = ''/auth/callback?error=access_denied'',
           req_headers = []\<rparr>)) = 200
   \<and> res_status (fst replay_first) = 200"
  using callback_error_pages_sent_with_200 by simp

subsection \<open>The store stays a map\<close>

lemma wf_store_new: "wf_store (pendingStates (UserTokenGenerator e))"
  by (simp add: UserTokenGenerator_def Let_def wf_store_def Map_keys_def)

lemma wf_store_auth_start:
  "wf_store (pendingStates srv) \<Longrightarrow> wf_store (pendingStates (fst (snd (auth_start srv state now req))))"
  by (simp add: auth_start_store wf_store_set)

lemma wf_store_delete_v: "wf_store m \<Longrightarrow> wf_store (Map_delete_v m x)"
  by (auto simp add: Map_delete_v_def wf_store_delete split: jsval.splits)

lemma callback_store:
  "fst (snd (auth_callback rt srv fetch g req)) = srv
   \<or> fst (snd (auth_callback rt srv fetch g req)) =
       srv\<lparr>pendingStates := Map_delete_v (pendingStates srv) (query_value (query req) ''state'')\<rparr>"
proof (cases "truthy (query_value (query req) ''error'')")
  case True
  show ?thesis
  proof (cases "toString rt (query_value (query req) ''error'')")
    case (Inl e)
    from callback_provider_error_no_text(2) [OF True Inl] show ?thesis by simp
  next
    case (Inr s)
    from callback_provider_error(2) [OF True Inr] show ?thesis by simp
  qed
next
  case noerr: False
  show ?thesis
  proof (cases "truthy (query_value (query req) ''code'') \<and> truthy (query_value (query req) ''state'')")
    case False
    then have "\<not> truthy (query_value (query req) ''code'') \<or> \<not> truthy (query_value (query req) ''state'')"
      by simp
    from callback_missing(2) [OF noerr this] show ?thesis by simp
  next
    case True
    then have pc: "truthy (query_value (query req) ''code'')"
      and ps: "truthy (query_value (query req) ''state'')"
      by simp_all
    show ?thesis
    proof (cases "Map_get_v (pendingStates srv) (query_value (query req) ''state'')")
      case None
      from callback_invalid_state(2) [OF noerr pc ps None] show ?thesis by simp
    next
      case (Some sd)
      show ?thesis
      proof (cases "fst (exchangeCodeForToken rt srv fetch (query_value (query req) ''code''))")
        case (Inl x)
        from callback_exchange_failed(2) [OF noerr pc ps Some Inl] show ?thesis by simp
      next
        case (Inr d)
        show ?thesis
        proof (cases "truthy (token_of d)")
          case False
          from callback_invalid_token(2) [OF noerr pc ps Some Inr False] show ?thesis by simp
        next
          case True
          show ?thesis
          proof (cases "fst (getSuccessPageWithToken rt d sd g)")
            case (Inl pe)
            from callback_page_refused(2) [OF noerr pc ps Some Inr True Inl] show ?thesis by simp
          next
            case page: (Inr page)
            from callback_success(2) [OF noerr pc ps Some Inr True page] show ?thesis by simp
          qed
        qed
      qed
    qed
  qed
qed

lemma wf_store_auth_callback:
  assumes "wf_store (pendingStates srv)"
  shows "wf_store (pendingStates (fst (snd (auth_callback rt srv fetch g req))))"
  using callback_store [of rt srv fetch g req] assms wf_store_delete_v [OF assms]
  by auto

lemma wf_store_cleanupStates:
  "wf_store (pendingStates srv) \<Longrightarrow> wf_store (pendingStates (fst (cleanupStates now srv)))"
  by (simp add: cleanupStates_store wf_store_def Map_keys_def distinct_map_filter)

end
